theory Spec2Isabelle
  imports Complex_Main "HOL-Library.AList"
begin

section \<open>Numbers, constants and library functions\<close>

text \<open>
  The simulation of \<^verbatim>\<open>src/main.py\<close> computes with Python floats. Throughout this
  development a Python number is a real number: rounding, overflow, signed zeros and NaN
  are outside the model. What Python raises is kept: a float division by zero raises
  \<^verbatim>\<open>ZeroDivisionError\<close>, a dictionary lookup of an absent key raises
  \<^verbatim>\<open>KeyError\<close>, and reading an attribute that an object does not have raises
  \<^verbatim>\<open>AttributeError\<close>.
\<close>

datatype py_error = ZeroDivisionError | KeyError | AttributeError

definition AU :: real where
  "AU = 1496 * 10 ^ 8"

definition G :: real where
  "G = 667428 / 10 ^ 16"

definition SCALE :: real where
  "SCALE = 200 / AU"

definition TIME_STEP :: real where
  "TIME_STEP = 60 * 60 * 24"

text \<open>\<^verbatim>\<open>math.dist\<close> on two points of the plane.\<close>

definition math_dist :: "real \<times> real \<Rightarrow> real \<times> real \<Rightarrow> real" where
  "math_dist p q = sqrt ((fst p - fst q)\<^sup>2 + (snd p - snd q)\<^sup>2)"

text \<open>
  \<^verbatim>\<open>math.atan2(y, x)\<close>: the angle of the point \<open>(x, y)\<close>, in \<open>(-\<pi>, \<pi>]\<close>, and \<open>0\<close> at
  the origin.
\<close>

definition math_atan2 :: "real \<Rightarrow> real \<Rightarrow> real" where
  "math_atan2 y x =
     (if 0 < x then arctan (y / x)
      else if x < 0 then (if 0 \<le> y then arctan (y / x) + pi else arctan (y / x) - pi)
      else if 0 < y then pi / 2
      else if y < 0 then - (pi / 2)
      else 0)"

text \<open>\<^verbatim>\<open>int(r)\<close> on a float: truncation towards zero.\<close>

definition py_int :: "real \<Rightarrow> int" where
  "py_int r = (if 0 \<le> r then \<lfloor>r\<rfloor> else \<lceil>r\<rceil>)"

text \<open>
  The slice \<^verbatim>\<open>xs[i:]\<close>: a negative start counts from the end, and a start out of range
  is clipped.
\<close>

definition slice_from :: "'a list \<Rightarrow> int \<Rightarrow> 'a list" where
  "slice_from xs i =
     (let n = int (length xs);
          j = (if i < 0 then max (n + i) 0 else min i n)
      in drop (nat j) xs)"

section \<open>The data model\<close>

datatype Color = WHITE | BLACK | YELLOW | GRAY | ORANGE | BLUE | RED

text \<open>
  Bodies are Python objects: they are compared by identity (the classes define no
  \<^verbatim>\<open>__eq__\<close>) and mutated in place, and the same body is reachable from several lists.
  An object identity is an address, and the store maps every address to the object that
  lives there.
\<close>

type_synonym ref = nat

text \<open>The attributes that class \<^verbatim>\<open>Planet\<close> adds to \<^verbatim>\<open>CelestialObject\<close>.\<close>

record planet_fields =
  orbit :: "(real \<times> real) list"
  parent_star :: ref
  distance_to_parent :: real

text \<open>
  An instance of \<^verbatim>\<open>CelestialObject\<close>. The attributes \<^verbatim>\<open>x\<close> and \<^verbatim>\<open>y\<close> are the fields
  \<open>pos_x\<close> and \<open>pos_y\<close>. An instance of the subclass \<^verbatim>\<open>Planet\<close> carries its additional
  attributes in \<open>planet_part\<close>, which is \<open>None\<close> for an instance of the base class itself.
\<close>

record celestial_object =
  name :: string
  radius :: int
  color :: Color
  mass :: real
  pos_x :: real
  pos_y :: real
  x_vel :: real
  y_vel :: real
  planet_part :: "planet_fields option"

type_synonym heap = "ref \<Rightarrow> celestial_object"

section \<open>Class CelestialObject\<close>

definition CelestialObject_init ::
  "string \<Rightarrow> int \<Rightarrow> Color \<Rightarrow> real \<Rightarrow> real \<times> real \<Rightarrow> real \<times> real \<Rightarrow> celestial_object" where
  "CelestialObject_init nm rd cl ms position velocity =
     \<lparr>name = nm, radius = rd, color = cl, mass = ms,
      pos_x = fst position, pos_y = snd position,
      x_vel = fst velocity, y_vel = snd velocity,
      planet_part = None\<rparr>"

definition set_position :: "heap \<Rightarrow> ref \<Rightarrow> real \<Rightarrow> real \<Rightarrow> heap" where
  "set_position h self x y = h(self := (h self)\<lparr>pos_x := x, pos_y := y\<rparr>)"

definition set_velocity :: "heap \<Rightarrow> ref \<Rightarrow> real \<Rightarrow> real \<Rightarrow> heap" where
  "set_velocity h self xv yv = h(self := (h self)\<lparr>x_vel := xv, y_vel := yv\<rparr>)"

definition get_position :: "heap \<Rightarrow> ref \<Rightarrow> real \<times> real" where
  "get_position h self = (pos_x (h self), pos_y (h self))"

definition calculate_distance_vectors :: "heap \<Rightarrow> ref \<Rightarrow> ref \<Rightarrow> real \<times> real" where
  "calculate_distance_vectors h self other_body =
     (let (other_x, other_y) = get_position h other_body;
          distance_x = other_x - pos_x (h self);
          distance_y = other_y - pos_y (h self)
      in (distance_x, distance_y))"

text \<open>
  The division \<^verbatim>\<open>G * self.mass * other_body.mass / distance**2\<close> is the only operation
  of the method that can raise.
\<close>

definition calculate_force_vectors :: "heap \<Rightarrow> ref \<Rightarrow> ref \<Rightarrow> py_error + real \<times> real" where
  "calculate_force_vectors h self other_body =
     (let (distance_x, distance_y) = calculate_distance_vectors h self other_body;
          distance = math_dist (get_position h self) (get_position h other_body)
      in if distance\<^sup>2 = 0 then Inl ZeroDivisionError
         else
           let force = G * mass (h self) * mass (h other_body) / distance\<^sup>2;
               theta = math_atan2 distance_y distance_x;
               force_x = cos theta * force;
               force_y = sin theta * force
           in Inr (force_x, force_y))"

text \<open>
  The loop of \<^verbatim>\<open>update_position\<close> over \<^verbatim>\<open>bodies\<close>, with the running totals
  \<^verbatim>\<open>total_fx\<close> and \<^verbatim>\<open>total_fy\<close>. The store is only read in the loop.
\<close>

fun sum_forces :: "heap \<Rightarrow> ref \<Rightarrow> ref list \<Rightarrow> real \<times> real \<Rightarrow> py_error + real \<times> real" where
  "sum_forces h self [] (total_fx, total_fy) = Inr (total_fx, total_fy)"
| "sum_forces h self (body # bodies) (total_fx, total_fy) =
     (if self = body then sum_forces h self bodies (total_fx, total_fy)
      else
        (case calculate_force_vectors h self body of
           Inl e \<Rightarrow> Inl e
         | Inr (fx, fy) \<Rightarrow> sum_forces h self bodies (total_fx + fx, total_fy + fy)))"

text \<open>
  \<^verbatim>\<open>CelestialObject.update_position\<close>. The first statement after the loop divides by
  \<^verbatim>\<open>self.mass\<close>, before anything is assigned.
\<close>

definition CelestialObject_update_position :: "heap \<Rightarrow> ref \<Rightarrow> ref list \<Rightarrow> py_error + heap" where
  "CelestialObject_update_position h self bodies =
     (case sum_forces h self bodies (0, 0) of
        Inl e \<Rightarrow> Inl e
      | Inr (total_fx, total_fy) \<Rightarrow>
          if mass (h self) = 0 then Inl ZeroDivisionError
          else
            let new_x_vel = x_vel (h self) + total_fx / mass (h self) * TIME_STEP;
                new_y_vel = y_vel (h self) + total_fy / mass (h self) * TIME_STEP;
                new_x = pos_x (h self) + new_x_vel * TIME_STEP;
                new_y = pos_y (h self) + new_y_vel * TIME_STEP
            in Inr (h(self := (h self)\<lparr>x_vel := new_x_vel, y_vel := new_y_vel,
                                       pos_x := new_x, pos_y := new_y\<rparr>)))"

section \<open>Class Planet\<close>

text \<open>
  \<^verbatim>\<open>Planet.__init__\<close> builds the object from the base class's attributes, an empty
  trail, and the distance to the parent star as the store has it at construction.
\<close>

definition Planet_init ::
  "heap \<Rightarrow> string \<Rightarrow> ref \<Rightarrow> int \<Rightarrow> Color \<Rightarrow> real \<Rightarrow> real \<times> real \<Rightarrow> real \<times> real
     \<Rightarrow> celestial_object" where
  "Planet_init h nm parent rd cl ms position velocity =
     (CelestialObject_init nm rd cl ms position velocity)
       \<lparr>planet_part :=
          Some \<lparr>orbit = [], parent_star = parent,
                distance_to_parent = math_dist position (get_position h parent)\<rparr>\<rparr>"

text \<open>
  \<^verbatim>\<open>Planet.update_position\<close>: the base class's update, then the distance to the parent,
  the new point of the trail, and the truncation \<^verbatim>\<open>self.orbit[-tail_length:]\<close>. The
  method is reached through the dispatch \<open>update_position\<close> below, on an instance of
  \<^verbatim>\<open>Planet\<close> only; on an object without the attributes of a planet the model gives
  \<^verbatim>\<open>AttributeError\<close>, a case that no call of the program reaches.
\<close>

definition Planet_update_position :: "heap \<Rightarrow> ref \<Rightarrow> ref list \<Rightarrow> py_error + heap" where
  "Planet_update_position h self bodies =
     (case CelestialObject_update_position h self bodies of
        Inl e \<Rightarrow> Inl e
      | Inr h1 \<Rightarrow>
          (case planet_part (h1 self) of
             None \<Rightarrow> Inl AttributeError
           | Some pf \<Rightarrow>
               let d = math_dist (get_position h1 self) (get_position h1 (parent_star pf));
                   orbit1 = orbit pf @ [(pos_x (h1 self), pos_y (h1 self))];
                   tail_length = py_int (d * SCALE);
                   orbit2 = (if int (length orbit1) > tail_length
                             then slice_from orbit1 (- tail_length) else orbit1)
               in Inr (h1(self := (h1 self)
                      \<lparr>planet_part := Some (pf\<lparr>distance_to_parent := d, orbit := orbit2\<rparr>)\<rparr>))))"

text \<open>The call \<^verbatim>\<open>body.update_position(bodies)\<close>: the method of the object's class.\<close>

definition update_position :: "heap \<Rightarrow> ref \<Rightarrow> ref list \<Rightarrow> py_error + heap" where
  "update_position h self bodies =
     (case planet_part (h self) of
        None \<Rightarrow> CelestialObject_update_position h self bodies
      | Some pf \<Rightarrow> Planet_update_position h self bodies)"

section \<open>Class SolarSystem\<close>

text \<open>The attribute \<^verbatim>\<open>name\<close> of a solar system is the field \<open>system_name\<close>.\<close>

record solar_system =
  system_name :: string
  star :: ref
  planets :: "ref list"

text \<open>The loop \<^verbatim>\<open>for planet in self.planets: planet.update_position(bodies)\<close>.\<close>

fun update_planets :: "heap \<Rightarrow> ref list \<Rightarrow> ref list \<Rightarrow> py_error + heap" where
  "update_planets h bodies [] = Inr h"
| "update_planets h bodies (p # ps) =
     (case update_position h p bodies of
        Inl e \<Rightarrow> Inl e
      | Inr h' \<Rightarrow> update_planets h' bodies ps)"

definition update_positions :: "heap \<Rightarrow> solar_system \<Rightarrow> py_error + heap" where
  "update_positions h s =
     (case update_position h (star s) (planets s) of
        Inl e \<Rightarrow> Inl e
      | Inr h1 \<Rightarrow> update_planets h1 (star s # planets s) (planets s))"

section \<open>The nearest neighbour\<close>

text \<open>The variable \<^verbatim>\<open>closest_distance\<close> holds \<^verbatim>\<open>math.inf\<close> or a distance.\<close>

datatype closest_distance = math_inf | Distance real

fun less_than :: "real \<Rightarrow> closest_distance \<Rightarrow> bool" where
  "less_than d math_inf = True"
| "less_than d (Distance c) = (d < c)"

fun closest_loop ::
  "heap \<Rightarrow> ref \<Rightarrow> ref list \<Rightarrow> ref option \<Rightarrow> closest_distance \<Rightarrow> ref option" where
  "closest_loop h p [] closest_neighbour cd = closest_neighbour"
| "closest_loop h p (other_planet # rest) closest_neighbour cd =
     (if other_planet = p then closest_loop h p rest closest_neighbour cd
      else
        let distance = math_dist (get_position h p) (get_position h other_planet)
        in if less_than distance cd
           then closest_loop h p rest (Some other_planet) (Distance distance)
           else closest_loop h p rest closest_neighbour cd)"

definition mostest_closest_neighbour :: "heap \<Rightarrow> ref \<Rightarrow> ref list \<Rightarrow> ref option" where
  "mostest_closest_neighbour h p other_planets = closest_loop h p other_planets None math_inf"

section \<open>The driver\<close>

text \<open>
  \<^verbatim>\<open>run_simulation\<close> creates five objects, in this order; their identities are the
  addresses \<open>0\<close> to \<open>4\<close>.
\<close>

definition sun :: ref where "sun = 0"
definition mercury :: ref where "mercury = 1"
definition venus :: ref where "venus = 2"
definition earth :: ref where "earth = 3"
definition mars :: ref where "mars = 4"

text \<open>
  The statements of \<^verbatim>\<open>run_simulation\<close> before the loop, in their order, on a store
  \<open>h0\<close> whose contents at other addresses do not matter.
\<close>

definition initial_heap :: "heap \<Rightarrow> heap" where
  "initial_heap h0 =
     (let h = h0(sun := CelestialObject_init ''Sun'' 16 YELLOW (1.98892 * 10 ^ 30) (0, 0) (0, 0));
          h = set_position h sun 0 0;
          h = h(mercury := Planet_init h ''Mercury'' sun 4 GRAY (3.30 * 10 ^ 23) (0, 0) (0, 0));
          h = set_position h mercury (0.387 * AU) 0;
          h = set_velocity h mercury 0 47400;
          h = h(venus := Planet_init h ''Venus'' sun 5 ORANGE (4.8685 * 10 ^ 24) (0, 0) (0, 0));
          h = set_position h venus (- 0.723 * AU) 0;
          h = set_velocity h venus 0 (- 35020);
          h = h(earth := Planet_init h ''Earth'' sun 5 BLUE (5.9742 * 10 ^ 24) (0, 0) (0, 0));
          h = set_position h earth (1 * AU) 0;
          h = set_velocity h earth 0 29783;
          h = h(mars := Planet_init h ''Mars'' sun 4 RED (6.39 * 10 ^ 23) (0, 0) (0, 0));
          h = set_position h mars (- 1.524 * AU) 0;
          h = set_velocity h mars 0 (- 24077)
      in h)"

text \<open>
  The local variables \<^verbatim>\<open>planets\<close> and \<^verbatim>\<open>solar_system\<close>, here \<open>planet_list\<close> and
  \<open>the_solar_system\<close>: \<open>planets\<close> is already the field of the record above.
\<close>

definition planet_list :: "ref list" where
  "planet_list = [mercury, venus, earth, mars]"

definition the_solar_system :: solar_system where
  "the_solar_system = \<lparr>system_name = ''The Solar System'', star = sun, planets = planet_list\<rparr>"

text \<open>
  The state that the loop changes: the store, \<^verbatim>\<open>count\<close> and the dictionary
  \<^verbatim>\<open>closest_count\<close>, whose keys are planets by identity, in insertion order.
\<close>

record sim_state =
  store :: heap
  count :: int
  closest_count :: "(ref \<times> int) list"

text \<open>\<^verbatim>\<open>{planet: 0 for planet in planets if planet != earth}\<close>\<close>

definition initial_closest_count :: "(ref \<times> int) list" where
  "initial_closest_count =
     foldl (\<lambda>d p. if p \<noteq> earth then AList.update p 0 d else d) [] planet_list"

definition initial_state :: "heap \<Rightarrow> sim_state" where
  "initial_state h0 =
     \<lparr>store = initial_heap h0, count = 0, closest_count = initial_closest_count\<rparr>"

text \<open>
  One iteration of the loop: the update of the positions, the tick counter and the tally.
  \<^verbatim>\<open>closest_count[closest_planet] += 1\<close> reads the dictionary at the key first. The
  statements that render the frame after it read the state and are not part of the model.
\<close>

definition tick :: "sim_state \<Rightarrow> py_error + sim_state" where
  "tick st =
     (case update_positions (store st) the_solar_system of
        Inl e \<Rightarrow> Inl e
      | Inr h' \<Rightarrow>
          let count' = count st + 1;
              closest_planet = mostest_closest_neighbour h' earth planet_list
          in (case closest_planet of
                None \<Rightarrow> Inl KeyError
              | Some p \<Rightarrow>
                  (case map_of (closest_count st) p of
                     None \<Rightarrow> Inl KeyError
                   | Some c \<Rightarrow>
                       Inr \<lparr>store = h', count = count',
                            closest_count = AList.update p (c + 1) (closest_count st)\<rparr>)))"

text \<open>
  The loop \<^verbatim>\<open>while run\<close>. Each frame of the input says whether a quit event was polled
  in it; the iteration that polls it still runs to its end. An input that ends without a
  quit event gives the state reached so far.
\<close>

fun run_loop :: "bool list \<Rightarrow> sim_state \<Rightarrow> py_error + sim_state" where
  "run_loop [] st = Inr st"
| "run_loop (quit # frames) st =
     (case tick st of
        Inl e \<Rightarrow> Inl e
      | Inr st' \<Rightarrow> if quit then Inr st' else run_loop frames st')"

text \<open>
  The number of iterations that the loop runs on an input: up to and including the first
  frame that polls a quit event.
\<close>

fun iterations :: "bool list \<Rightarrow> nat" where
  "iterations [] = 0"
| "iterations (quit # frames) = Suc (if quit then 0 else iterations frames)"

section \<open>Specification of the nearest neighbour\<close>

text \<open>
  The candidate that the specification asks for: among the candidates \<open>cs\<close>, in their
  order, \<open>c\<close> is strictly nearer to \<open>p\<close> than every candidate before it and at least as
  near as every candidate after it. This predicate is not part of the program.
\<close>

definition first_nearest :: "heap \<Rightarrow> ref \<Rightarrow> ref list \<Rightarrow> ref \<Rightarrow> bool" where
  "first_nearest h p cs c =
     (\<exists>pre post. cs = pre @ c # post
        \<and> (\<forall>q\<in>set pre. math_dist (get_position h p) (get_position h c)
                           < math_dist (get_position h p) (get_position h q))
        \<and> (\<forall>q\<in>set post. math_dist (get_position h p) (get_position h c)
                           \<le> math_dist (get_position h p) (get_position h q)))"

section \<open>The invariant of the tally\<close>

text \<open>
  The dictionary has the three planets other than the Earth as its keys, once each and in
  this order, and its values add up to the tick counter. This predicate is not part of
  the program.
\<close>

definition tally_invariant :: "sim_state \<Rightarrow> bool" where
  "tally_invariant st =
     (map fst (closest_count st) = [mercury, venus, mars]
      \<and> sum_list (map snd (closest_count st)) = count st)"

section \<open>Example stores\<close>

text \<open>
  A store for concrete runs: the body at address \<open>r\<close> has mass \<open>10\<^sup>1\<^sup>6\<close> and rests on the
  x-axis at \<open>x = r\<close>; address \<open>0\<close> holds a plain celestial object, every other address a
  planet whose parent star is the body at \<open>0\<close>.
\<close>

definition line_store :: heap where
  "line_store r =
     \<lparr>name = ''body'', radius = 1, color = WHITE, mass = 10 ^ 16,
      pos_x = real r, pos_y = 0, x_vel = 0, y_vel = 0,
      planet_part =
        (if r = 0 then None
         else Some \<lparr>orbit = [], parent_star = 0, distance_to_parent = real r\<rparr>)\<rparr>"

text \<open>The same store with a second body at address \<open>3\<close> in the state of the body at \<open>0\<close>.\<close>

definition twin_store :: heap where
  "twin_store = line_store(3 := line_store 0)"

text \<open>
  A moon as a planet of the Earth, built with the constructors and setters in the order
  in which \<^verbatim>\<open>run_simulation\<close> builds its bodies: the Earth at the origin, the Moon
  at the lunar distance with its orbital speed.
\<close>

definition terra :: ref where "terra = 0"
definition luna :: ref where "luna = 1"

definition moon_store :: heap where
  "moon_store =
     (let h = line_store(terra := CelestialObject_init ''Earth'' 5 BLUE (5.9742 * 10 ^ 24) (0, 0) (0, 0));
          h = h(luna := Planet_init h ''Moon'' terra 2 GRAY (7.35 * 10 ^ 22) (0, 0) (0, 0));
          h = set_position h luna (3.844 * 10 ^ 8) 0;
          h = set_velocity h luna 0 1022
      in h)"

text \<open>The position of the Moon after one step.\<close>

definition luna_x :: real where
  "luna_x = 3.844 * 10 ^ 8
             + - (G * (7.35 * 10 ^ 22) * (5.9742 * 10 ^ 24) / (3.844 * 10 ^ 8)\<^sup>2) / (7.35 * 10 ^ 22)
                 * TIME_STEP * TIME_STEP"

definition luna_y :: real where
  "luna_y = 1022 * TIME_STEP"

section \<open>Distances and angles\<close>

lemma sqrt_one_plus_ratio:
  fixes x y :: real
  assumes "x \<noteq> 0"
  shows "sqrt (1 + (y / x)\<^sup>2) = sqrt (x\<^sup>2 + y\<^sup>2) / \<bar>x\<bar>"
proof -
  have "1 + (y / x)\<^sup>2 = (x\<^sup>2 + y\<^sup>2) / x\<^sup>2"
    using assms by (simp add: power_divide add_divide_distrib)
  then show ?thesis
    by (simp add: real_sqrt_divide)
qed

lemma cos_math_atan2:
  "x \<noteq> 0 \<or> y \<noteq> 0 \<Longrightarrow> cos (math_atan2 y x) = x / sqrt (x\<^sup>2 + y\<^sup>2)"
  by (auto simp: math_atan2_def cos_arctan sqrt_one_plus_ratio cos_diff cos_add)

lemma sin_math_atan2:
  "x \<noteq> 0 \<or> y \<noteq> 0 \<Longrightarrow> sin (math_atan2 y x) = y / sqrt (x\<^sup>2 + y\<^sup>2)"
  by (auto simp: math_atan2_def sin_arctan sqrt_one_plus_ratio sin_diff sin_add)

lemma math_atan2_range: "- pi < math_atan2 y x \<and> math_atan2 y x \<le> pi"
proof -
  have lo: "- (pi / 2) < arctan (y / x)" and hi: "arctan (y / x) < pi / 2"
    by (rule arctan_lbound, rule arctan_ubound)
  consider "0 < x" | "x < 0" "0 \<le> y" | "x < 0" "y < 0" | "x = 0"
    by linarith
  then show ?thesis
  proof cases
    case 1
    then have "math_atan2 y x = arctan (y / x)"
      by (simp add: math_atan2_def)
    then show ?thesis
      using lo hi pi_gt_zero by linarith
  next
    case 2
    then have "math_atan2 y x = arctan (y / x) + pi"
      by (simp add: math_atan2_def)
    moreover have "arctan (y / x) \<le> 0"
      using 2 by (simp add: divide_nonneg_neg arctan_le_zero_iff)
    ultimately show ?thesis
      using lo pi_gt_zero by linarith
  next
    case 3
    then have "math_atan2 y x = arctan (y / x) - pi"
      by (simp add: math_atan2_def)
    moreover have "0 < arctan (y / x)"
      using 3 by (simp add: divide_neg_neg zero_less_arctan_iff)
    ultimately show ?thesis
      using hi pi_gt_zero by linarith
  next
    case 4
    then have "math_atan2 y x = pi / 2 \<or> math_atan2 y x = - (pi / 2) \<or> math_atan2 y x = 0"
      by (simp add: math_atan2_def)
    then show ?thesis
      using pi_gt_zero by linarith
  qed
qed

lemma math_dist_sym: "math_dist p q = math_dist q p"
  by (simp add: math_dist_def power2_commute)

lemma math_dist_nonneg: "0 \<le> math_dist p q"
  by (simp add: math_dist_def)

lemma math_dist_eq_0: "(math_dist p q = 0) = (p = q)"
  by (auto simp: math_dist_def prod_eq_iff  sum_power2_eq_zero_iff)

lemma math_dist_pos: "(0 < math_dist p q) = (p \<noteq> q)"
  using math_dist_nonneg [of p q] math_dist_eq_0 [of p q] by linarith

lemma math_dist_sq: "(math_dist p q)\<^sup>2 = (fst p - fst q)\<^sup>2 + (snd p - snd q)\<^sup>2"
  by (simp add: math_dist_def)

lemma calculate_force_vectors_coincide:
  "get_position h a = get_position h b \<Longrightarrow> calculate_force_vectors h a b = Inl ZeroDivisionError"
  by (simp add: calculate_force_vectors_def calculate_distance_vectors_def math_dist_eq_0 split: prod.splits)

lemma calculate_force_vectors_apart:
  assumes "get_position h a \<noteq> get_position h b"
  shows "calculate_force_vectors h a b =
           Inr (cos (math_atan2 (pos_y (h b) - pos_y (h a)) (pos_x (h b) - pos_x (h a)))
                  * (G * mass (h a) * mass (h b) / (math_dist (get_position h a) (get_position h b))\<^sup>2),
                sin (math_atan2 (pos_y (h b) - pos_y (h a)) (pos_x (h b) - pos_x (h a)))
                  * (G * mass (h a) * mass (h b) / (math_dist (get_position h a) (get_position h b))\<^sup>2))"
  using assms
  by (simp add: calculate_force_vectors_def calculate_distance_vectors_def math_dist_eq_0 get_position_def Let_def)

lemma calculate_force_vectors_radial:
  assumes "get_position h a \<noteq> get_position h b"
  shows "calculate_force_vectors h a b =
           Inr (G * mass (h a) * mass (h b) / (math_dist (get_position h a) (get_position h b))\<^sup>2
                  * ((pos_x (h b) - pos_x (h a)) / math_dist (get_position h a) (get_position h b)),
                G * mass (h a) * mass (h b) / (math_dist (get_position h a) (get_position h b))\<^sup>2
                  * ((pos_y (h b) - pos_y (h a)) / math_dist (get_position h a) (get_position h b)))"
proof -
  have nz: "pos_x (h b) - pos_x (h a) \<noteq> 0 \<or> pos_y (h b) - pos_y (h a) \<noteq> 0"
    using assms by (auto simp: get_position_def)
  have d: "math_dist (get_position h a) (get_position h b)
             = sqrt ((pos_x (h b) - pos_x (h a))\<^sup>2 + (pos_y (h b) - pos_y (h a))\<^sup>2)"
    by (simp add: math_dist_def get_position_def power2_commute)
  show ?thesis
    unfolding calculate_force_vectors_apart [OF assms] cos_math_atan2 [OF nz] sin_math_atan2 [OF nz] d
    by (simp add: mult.commute)
qed

lemma math_dist_same_y: "math_dist (a, y) (b, y) = \<bar>a - b\<bar>"
  by (simp add: math_dist_def)

lemma math_atan2_axis: "math_atan2 0 x = (if x < 0 then pi else 0)"
  by (simp add: math_atan2_def)

section \<open>The gravitational force between two bodies\<close>

text \<open>
  Claim C2. For two bodies \<open>a\<close> and \<open>b\<close> at distance \<open>d > 0\<close>, \<^verbatim>\<open>calculate_force_vectors\<close>
  returns \<open>(F cos \<theta>, F sin \<theta>)\<close> with \<open>F = G m\<^sub>a m\<^sub>b / d\<^sup>2\<close> and
  \<open>\<theta> = atan2 (y\<^sub>b - y\<^sub>a) (x\<^sub>b - x\<^sub>a)\<close>. The angle lies in \<open>(-\<pi>, \<pi>]\<close> and is the direction from
  \<open>a\<close> to \<open>b\<close>: \<open>d cos \<theta>\<close> and \<open>d sin \<theta>\<close> are the two components of the displacement.
\<close>

theorem calculate_force_vectors_components:
  assumes "0 < math_dist (get_position h a) (get_position h b)"
  shows "(let d = math_dist (get_position h a) (get_position h b);
              F = G * mass (h a) * mass (h b) / d\<^sup>2;
              \<theta> = math_atan2 (pos_y (h b) - pos_y (h a)) (pos_x (h b) - pos_x (h a))
          in calculate_force_vectors h a b = Inr (F * cos \<theta>, F * sin \<theta>)
             \<and> - pi < \<theta> \<and> \<theta> \<le> pi
             \<and> d * cos \<theta> = pos_x (h b) - pos_x (h a)
             \<and> d * sin \<theta> = pos_y (h b) - pos_y (h a))"
proof -
  let ?dx = "pos_x (h b) - pos_x (h a)" and ?dy = "pos_y (h b) - pos_y (h a)"
  have ne: "get_position h a \<noteq> get_position h b"
    using assms by (simp add: math_dist_pos)
  then have nz: "?dx \<noteq> 0 \<or> ?dy \<noteq> 0"
    by (auto simp: get_position_def)
  have d: "math_dist (get_position h a) (get_position h b) = sqrt (?dx\<^sup>2 + ?dy\<^sup>2)"
    by (simp add: math_dist_def get_position_def power2_commute)
  have pos: "0 < sqrt (?dx\<^sup>2 + ?dy\<^sup>2)"
    using assms by (simp only: d)
  have "sqrt (?dx\<^sup>2 + ?dy\<^sup>2) * cos (math_atan2 ?dy ?dx) = ?dx"
    and "sqrt (?dx\<^sup>2 + ?dy\<^sup>2) * sin (math_atan2 ?dy ?dx) = ?dy"
    using pos by (simp_all only: cos_math_atan2 [OF nz] sin_math_atan2 [OF nz]) simp_all
  then show ?thesis
    using math_atan2_range [of ?dy ?dx]
    by (simp add: calculate_force_vectors_apart [OF ne] Let_def mult.commute d)
qed

theorem calculate_force_vectors_components_witness:
  "0 < math_dist (get_position line_store 0) (get_position line_store 3)
   \<and> calculate_force_vectors line_store 0 3 = Inr (G * 10 ^ 16 * 10 ^ 16 / 9, 0)
   \<and> calculate_force_vectors line_store 3 0 = Inr (- (G * 10 ^ 16 * 10 ^ 16 / 9), 0)"
proof -
  have d: "math_dist (get_position line_store 0) (get_position line_store 3) = 3"
    "math_dist (get_position line_store 3) (get_position line_store 0) = 3"
    by (simp_all add: get_position_def line_store_def math_dist_same_y)
  have p: "0 < math_dist (get_position line_store 0) (get_position line_store 3)"
    "0 < math_dist (get_position line_store 3) (get_position line_store 0)"
    by (simp_all add: d)
  show ?thesis
    using calculate_force_vectors_components [OF p(1)] calculate_force_vectors_components [OF p(2)]
    by (simp add: d Let_def) (simp add: line_store_def math_atan2_axis)
qed

text \<open>
  Claim C6. For two bodies at distance \<open>d > 0\<close>, the force on \<open>a\<close> from \<open>b\<close> is the negation
  of the force on \<open>b\<close> from \<open>a\<close>, and both have the magnitude \<open>\<bar>G m\<^sub>a m\<^sub>b\<bar> / d\<^sup>2\<close>, which is
  \<open>G m\<^sub>a m\<^sub>b / d\<^sup>2\<close> for masses of the same sign (in particular for positive masses).
\<close>

theorem newton_third_law:
  assumes "0 < math_dist (get_position h a) (get_position h b)"
  shows "\<exists>fx fy. calculate_force_vectors h a b = Inr (fx, fy)
           \<and> calculate_force_vectors h b a = Inr (- fx, - fy)
           \<and> sqrt (fx\<^sup>2 + fy\<^sup>2)
               = \<bar>G * mass (h a) * mass (h b)\<bar> / (math_dist (get_position h a) (get_position h b))\<^sup>2
           \<and> (0 \<le> mass (h a) * mass (h b) \<longrightarrow>
                sqrt (fx\<^sup>2 + fy\<^sup>2)
                  = G * mass (h a) * mass (h b) / (math_dist (get_position h a) (get_position h b))\<^sup>2)"
proof -
  let ?d = "math_dist (get_position h a) (get_position h b)"
  let ?F = "G * mass (h a) * mass (h b) / ?d\<^sup>2"
  let ?ux = "(pos_x (h b) - pos_x (h a)) / ?d"
  let ?uy = "(pos_y (h b) - pos_y (h a)) / ?d"
  have ne: "get_position h a \<noteq> get_position h b" and ne': "get_position h b \<noteq> get_position h a"
    using assms by (auto simp: math_dist_pos)
  have ab: "calculate_force_vectors h a b = Inr (?F * ?ux, ?F * ?uy)"
    by (rule calculate_force_vectors_radial [OF ne])
  have "calculate_force_vectors h b a
          = Inr (G * mass (h b) * mass (h a) / ?d\<^sup>2 * ((pos_x (h a) - pos_x (h b)) / ?d),
                 G * mass (h b) * mass (h a) / ?d\<^sup>2 * ((pos_y (h a) - pos_y (h b)) / ?d))"
    using calculate_force_vectors_radial [OF ne'] by (simp add: math_dist_sym [of "get_position h b"])
  also have "\<dots> = Inr (- (?F * ?ux), - (?F * ?uy))"
  proof -
    have swap: "G * mass (h b) * mass (h a) = G * mass (h a) * mass (h b)"
      by simp
    have nx: "(pos_x (h a) - pos_x (h b)) / ?d = - ?ux"
      and ny: "(pos_y (h a) - pos_y (h b)) / ?d = - ?uy"
      by (simp_all add: minus_divide_left)
    show ?thesis
      unfolding swap nx ny by simp
  qed
  finally have ba: "calculate_force_vectors h b a = Inr (- (?F * ?ux), - (?F * ?uy))" .
  have unit: "?ux\<^sup>2 + ?uy\<^sup>2 = 1"
  proof -
    have "?d\<^sup>2 = (pos_x (h b) - pos_x (h a))\<^sup>2 + (pos_y (h b) - pos_y (h a))\<^sup>2"
      by (simp add: math_dist_sq get_position_def power2_commute)
    moreover have "?d\<^sup>2 \<noteq> 0"
      using assms by simp
    ultimately show ?thesis
      by (simp add: power_divide add_divide_distrib [symmetric])
  qed
  have "(?F * ?ux)\<^sup>2 + (?F * ?uy)\<^sup>2 = ?F\<^sup>2 * (?ux\<^sup>2 + ?uy\<^sup>2)"
    by (simp only: power_mult_distrib distrib_left)
  then have "sqrt ((?F * ?ux)\<^sup>2 + (?F * ?uy)\<^sup>2) = \<bar>?F\<bar>"
    by (simp only: unit mult_1_right real_sqrt_abs)
  then have mag: "sqrt ((?F * ?ux)\<^sup>2 + (?F * ?uy)\<^sup>2) = \<bar>G * mass (h a) * mass (h b)\<bar> / ?d\<^sup>2"
    by (simp add: abs_divide)
  have G_pos: "0 < G"
    by (simp add: G_def)
  have "0 \<le> mass (h a) * mass (h b) \<Longrightarrow> \<bar>G * mass (h a) * mass (h b)\<bar> = G * mass (h a) * mass (h b)"
  proof -
    assume "0 \<le> mass (h a) * mass (h b)"
    then have "0 \<le> G * (mass (h a) * mass (h b))"
      using G_pos by simp
    then show ?thesis
      by (simp only: mult.assoc abs_of_nonneg)
  qed
  with ab ba mag show ?thesis
    by auto
qed

theorem newton_third_law_witness:
  "0 < math_dist (get_position line_store 2) (get_position line_store 4)
   \<and> (\<exists>fx fy. calculate_force_vectors line_store 2 4 = Inr (fx, fy)
         \<and> calculate_force_vectors line_store 4 2 = Inr (- fx, - fy)
         \<and> sqrt (fx\<^sup>2 + fy\<^sup>2) = G * 10 ^ 16 * 10 ^ 16 / 4)"
proof -
  have d: "math_dist (get_position line_store 2) (get_position line_store 4) = 2"
    by (simp add: get_position_def line_store_def math_dist_same_y)
  have p: "0 < math_dist (get_position line_store 2) (get_position line_store 4)"
    by (simp add: d)
  have m: "mass (line_store 2) = 10 ^ 16" "mass (line_store 4) = 10 ^ 16"
    by (simp_all add: line_store_def)
  show ?thesis
    using newton_third_law [OF p] p unfolding d m by auto
qed



section \<open>The update of one body\<close>

lemma calculate_force_vectors_same_y:
  assumes "pos_y (h a) = pos_y (h b)" and "pos_x (h a) \<noteq> pos_x (h b)"
  shows "calculate_force_vectors h a b =
           Inr ((if pos_x (h b) < pos_x (h a) then - 1 else 1)
                  * (G * mass (h a) * mass (h b) / (pos_x (h b) - pos_x (h a))\<^sup>2), 0)"
proof -
  have ne: "get_position h a \<noteq> get_position h b"
    using assms by (simp add: get_position_def)
  have d: "(math_dist (get_position h a) (get_position h b))\<^sup>2 = (pos_x (h b) - pos_x (h a))\<^sup>2"
    using assms by (simp add: math_dist_sq get_position_def power2_commute)
  show ?thesis
    unfolding calculate_force_vectors_apart [OF ne] d
    using assms by (simp add: math_atan2_axis)
qed

lemma sum_forces_eq:
  "sum_forces h self bodies (ax, ay) =
     (if \<exists>b\<in>set bodies. b \<noteq> self \<and> get_position h b = get_position h self
      then Inl ZeroDivisionError
      else Inr (ax + (\<Sum>b\<leftarrow>filter (\<lambda>b. b \<noteq> self) bodies. fst (projr (calculate_force_vectors h self b))),
                ay + (\<Sum>b\<leftarrow>filter (\<lambda>b. b \<noteq> self) bodies. snd (projr (calculate_force_vectors h self b)))))"
proof (induction bodies arbitrary: ax ay)
  case Nil
  show ?case by simp
next
  case (Cons body bodies)
  show ?case
  proof (cases "self = body")
    case True
    then show ?thesis
      using Cons.IH [of ax ay] by auto
  next
    case ne: False
    show ?thesis
    proof (cases "get_position h self = get_position h body")
      case True
      then show ?thesis
        using ne by (auto simp: calculate_force_vectors_coincide)
    next
      case False
      then obtain fx fy where f: "calculate_force_vectors h self body = Inr (fx, fy)"
        using calculate_force_vectors_apart [of h self body] by blast
      show ?thesis
        using ne False Cons.IH [of "ax + fx" "ay + fy"] by (auto simp: f add.assoc)
    qed
  qed
qed

lemma CelestialObject_update_position_eq:
  "CelestialObject_update_position h self bodies =
     (let others = filter (\<lambda>b. b \<noteq> self) bodies
      in if (\<exists>b\<in>set others. get_position h b = get_position h self) \<or> mass (h self) = 0
         then Inl ZeroDivisionError
         else
           let total_fx = (\<Sum>b\<leftarrow>others. fst (projr (calculate_force_vectors h self b)));
               total_fy = (\<Sum>b\<leftarrow>others. snd (projr (calculate_force_vectors h self b)));
               new_x_vel = x_vel (h self) + total_fx / mass (h self) * TIME_STEP;
               new_y_vel = y_vel (h self) + total_fy / mass (h self) * TIME_STEP
           in Inr (h(self := (h self)
                    \<lparr>x_vel := new_x_vel, y_vel := new_y_vel,
                     pos_x := pos_x (h self) + new_x_vel * TIME_STEP,
                     pos_y := pos_y (h self) + new_y_vel * TIME_STEP\<rparr>)))"
proof -
  have *: "(\<exists>b\<in>set (filter (\<lambda>b. b \<noteq> self) bodies). get_position h b = get_position h self)
             = (\<exists>b\<in>set bodies. b \<noteq> self \<and> get_position h b = get_position h self)"
    by auto
  show ?thesis
    unfolding CelestialObject_update_position_def sum_forces_eq Let_def *
    by simp
qed

text \<open>
  Claim C1. \<^verbatim>\<open>CelestialObject.update_position\<close> adds up the forces from the entries of
  \<^verbatim>\<open>bodies\<close> other than the body itself, where an entry is skipped when it is the same
  object, not when it is in the same state; it adds \<open>total_force / mass * TIME_STEP\<close> to the
  velocity, and then adds the new velocity times \<open>TIME_STEP\<close> to the position. It raises
  when another entry is at the body's position or when the body's mass is \<open>0\<close>. An entry
  that is another object in the same state as the body is not skipped: the update raises.
\<close>

theorem update_position_semi_implicit_euler:
  "CelestialObject_update_position h self bodies =
     (let others = filter (\<lambda>b. b \<noteq> self) bodies
      in if (\<exists>b\<in>set others. get_position h b = get_position h self) \<or> mass (h self) = 0
         then Inl ZeroDivisionError
         else
           let total_fx = (\<Sum>b\<leftarrow>others. fst (projr (calculate_force_vectors h self b)));
               total_fy = (\<Sum>b\<leftarrow>others. snd (projr (calculate_force_vectors h self b)));
               new_x_vel = x_vel (h self) + total_fx / mass (h self) * TIME_STEP;
               new_y_vel = y_vel (h self) + total_fy / mass (h self) * TIME_STEP
           in Inr (h(self := (h self)
                    \<lparr>x_vel := new_x_vel, y_vel := new_y_vel,
                     pos_x := pos_x (h self) + new_x_vel * TIME_STEP,
                     pos_y := pos_y (h self) + new_y_vel * TIME_STEP\<rparr>)))
   \<and> (\<forall>b\<in>set bodies. b \<noteq> self \<and> h b = h self \<longrightarrow>
         CelestialObject_update_position h self bodies = Inl ZeroDivisionError)"
proof -
  have "CelestialObject_update_position h self bodies = Inl ZeroDivisionError"
    if "b \<in> set bodies" "b \<noteq> self" "h b = h self" for b
  proof -
    have "get_position h b = get_position h self"
      using that by (simp add: get_position_def)
    then have "\<exists>b\<in>set bodies. b \<noteq> self \<and> get_position h b = get_position h self"
      using that by blast
    then show ?thesis
      unfolding CelestialObject_update_position_def sum_forces_eq by simp
  qed
  then show ?thesis
    using CelestialObject_update_position_eq [of h self bodies] by blast
qed

theorem update_position_semi_implicit_euler_witness:
  "CelestialObject_update_position line_store 2 [0, 2, 4] =
     Inr (line_store(2 := (line_store 2)
       \<lparr>x_vel := 0, y_vel := 0, pos_x := 2, pos_y := 0\<rparr>))
   \<and> CelestialObject_update_position line_store 2 [0, 2, 3] =
     Inr (line_store(2 := (line_store 2)
       \<lparr>x_vel := 43249334400, y_vel := 0, pos_x := 3736742492160002, pos_y := 0\<rparr>))
   \<and> twin_store 3 = twin_store 0
   \<and> CelestialObject_update_position twin_store 0 [0, 0, 2] =
     Inr (twin_store(0 := (twin_store 0)
       \<lparr>x_vel := 14416444800, y_vel := 0, pos_x := 1245580830720000, pos_y := 0\<rparr>))
   \<and> CelestialObject_update_position twin_store 0 [0, 3, 2] = Inl ZeroDivisionError"
proof -
  have f: "calculate_force_vectors line_store 2 0 = Inr (- (G * 10 ^ 32 / 4), 0)"
    "calculate_force_vectors line_store 2 4 = Inr (G * 10 ^ 32 / 4, 0)"
    "calculate_force_vectors line_store 2 3 = Inr (G * 10 ^ 32, 0)"
    "calculate_force_vectors twin_store 0 2 = Inr (G * 10 ^ 32 / 4, 0)"
    by (simp_all add: calculate_force_vectors_same_y line_store_def twin_store_def)
  have p: "get_position line_store r = (real r, 0)" for r
    by (simp add: get_position_def line_store_def)
  have q: "get_position twin_store 0 = (0, 0)" "get_position twin_store 2 = (2, 0)"
    "get_position twin_store 3 = (0, 0)"
    by (simp_all add: get_position_def line_store_def twin_store_def)
  have m: "mass (line_store 2) = 10 ^ 16" "mass (twin_store 0) = 10 ^ 16"
    "x_vel (line_store 2) = 0" "y_vel (line_store 2) = 0" "pos_x (line_store 2) = 2" "pos_y (line_store 2) = 0"
    "x_vel (twin_store 0) = 0" "y_vel (twin_store 0) = 0" "pos_x (twin_store 0) = 0" "pos_y (twin_store 0) = 0"
    by (simp_all add: line_store_def twin_store_def)
  have 1: "CelestialObject_update_position line_store 2 [0, 2, 4] =
     Inr (line_store(2 := (line_store 2)
       \<lparr>x_vel := 0, y_vel := 0, pos_x := 2, pos_y := 0\<rparr>))"
    using update_position_semi_implicit_euler [of line_store 2 "[0, 2, 4]"]
    by (simp add: f p m Let_def)
  have 2: "CelestialObject_update_position line_store 2 [0, 2, 3] =
     Inr (line_store(2 := (line_store 2)
       \<lparr>x_vel := 43249334400, y_vel := 0, pos_x := 3736742492160002, pos_y := 0\<rparr>))"
    using update_position_semi_implicit_euler [of line_store 2 "[0, 2, 3]"]
    by (simp add: f p m Let_def G_def TIME_STEP_def)
  have 3: "CelestialObject_update_position twin_store 0 [0, 0, 2] =
     Inr (twin_store(0 := (twin_store 0)
       \<lparr>x_vel := 14416444800, y_vel := 0, pos_x := 1245580830720000, pos_y := 0\<rparr>))"
    using update_position_semi_implicit_euler [of twin_store 0 "[0, 0, 2]"]
    by (simp add: f q m Let_def G_def TIME_STEP_def)
  have 4: "CelestialObject_update_position twin_store 0 [0, 3, 2] = Inl ZeroDivisionError"
    using update_position_semi_implicit_euler [of twin_store 0 "[0, 3, 2]"]
    by (simp add: q Let_def)
  have 5: "twin_store 3 = twin_store 0"
    by (simp add: twin_store_def)
  from 1 2 3 4 5 show ?thesis
    by (simp only: simp_thms)
qed

section \<open>The update of a planet and its trail\<close>

lemma py_int_nonneg: "0 \<le> r \<Longrightarrow> 0 \<le> py_int r"
  by (simp add: py_int_def)

lemma slice_from_zero: "slice_from xs 0 = xs"
  by (simp add: slice_from_def)

lemma slice_from_neg:
  "0 < t \<Longrightarrow> t < int (length xs) \<Longrightarrow> slice_from xs (- t) = drop (length xs - nat t) xs"
  by (simp add: slice_from_def Let_def nat_diff_distrib')

lemma CelestialObject_update_position_frame:
  assumes "CelestialObject_update_position h self bodies = Inr h'"
  shows "planet_part (h' r) = planet_part (h r)"
    and "r \<noteq> self \<Longrightarrow> h' r = h r"
    and "mass (h' r) = mass (h r)"
  using assms
  by (auto simp: CelestialObject_update_position_def Let_def split: sum.splits prod.splits if_splits)

lemma Planet_update_position_orbit:
  assumes "Planet_update_position h self bodies = Inr h'"
  shows "\<exists>pf pf' h1. CelestialObject_update_position h self bodies = Inr h1
           \<and> planet_part (h self) = Some pf \<and> planet_part (h' self) = Some pf'
           \<and> parent_star pf' = parent_star pf
           \<and> get_position h' self = get_position h1 self
           \<and> get_position h' (parent_star pf) = get_position h1 (parent_star pf)
           \<and> distance_to_parent pf' = math_dist (get_position h' self) (get_position h' (parent_star pf'))
           \<and> 0 \<le> py_int (distance_to_parent pf' * SCALE)
           \<and> orbit pf' =
               (let orbit1 = orbit pf @ [get_position h' self];
                    tail_length = py_int (distance_to_parent pf' * SCALE)
                in if 0 < tail_length \<and> tail_length < int (length orbit1)
                   then drop (length orbit1 - nat tail_length) orbit1
                   else orbit1)"
proof -
  obtain h1 where h1: "CelestialObject_update_position h self bodies = Inr h1"
    using assms by (auto simp: Planet_update_position_def split: sum.splits)
  obtain pf where pf1: "planet_part (h1 self) = Some pf"
    using assms h1 by (auto simp: Planet_update_position_def split: option.splits)
  have pf: "planet_part (h self) = Some pf"
    using CelestialObject_update_position_frame(1) [OF h1, of self] pf1 by simp
  let ?d = "math_dist (get_position h1 self) (get_position h1 (parent_star pf))"
  let ?o1 = "orbit pf @ [(pos_x (h1 self), pos_y (h1 self))]"
  let ?t = "py_int (?d * SCALE)"
  let ?o2 = "if int (length ?o1) > ?t then slice_from ?o1 (- ?t) else ?o1"
  have h': "h' = h1(self := (h1 self)\<lparr>planet_part := Some (pf\<lparr>distance_to_parent := ?d, orbit := ?o2\<rparr>)\<rparr>)"
    using assms h1 pf1 by (simp add: Planet_update_position_def Let_def)
  have pos: "get_position h' r = get_position h1 r" for r
    by (simp add: h' get_position_def)
  have t0: "0 \<le> ?t"
    by (rule py_int_nonneg) (simp add: math_dist_nonneg SCALE_def AU_def)
  have o2: "?o2 = (if 0 < ?t \<and> ?t < int (length ?o1) then drop (length ?o1 - nat ?t) ?o1 else ?o1)"
  proof (cases "?t = 0")
    case True
    then show ?thesis
      by (simp add: slice_from_zero)
  next
    case False
    with t0 have "0 < ?t" by linarith
    then show ?thesis
      by (simp add: slice_from_neg)
  qed
  let ?pf' = "pf\<lparr>distance_to_parent := ?d, orbit := ?o2\<rparr>"
  have c1: "planet_part (h' self) = Some ?pf'"
    by (simp add: h')
  have c2: "parent_star ?pf' = parent_star pf"
    by simp
  have c3: "distance_to_parent ?pf' = math_dist (get_position h' self) (get_position h' (parent_star ?pf'))"
    by (simp add: pos)
  have pt: "(pos_x (h1 self), pos_y (h1 self)) = get_position h' self"
    unfolding pos by (simp add: get_position_def)
  have c4: "orbit ?pf' =
              (let orbit1 = orbit pf @ [get_position h' self];
                   tail_length = py_int (distance_to_parent ?pf' * SCALE)
               in if 0 < tail_length \<and> tail_length < int (length orbit1)
                  then drop (length orbit1 - nat tail_length) orbit1
                  else orbit1)"
    using o2 unfolding pt Let_def by simp
  have c5: "0 \<le> py_int (distance_to_parent ?pf' * SCALE)"
    using t0 by simp
  show ?thesis
    using h1 pf c1 c2 c3 c4 c5 pos by blast
qed

text \<open>
  With a tail length of at least \<open>1\<close> the trail is bounded by it after the update; with
  a tail length of \<open>0\<close> the slice \<^verbatim>\<open>self.orbit[-0:]\<close> is the whole list, and the trail
  keeps every point.
\<close>

lemma orbit_length_after_update:
  assumes "Planet_update_position h self bodies = Inr h'"
    and "planet_part (h self) = Some pf" and "planet_part (h' self) = Some pf'"
  shows "0 < py_int (distance_to_parent pf' * SCALE) \<Longrightarrow>
           int (length (orbit pf')) \<le> py_int (distance_to_parent pf' * SCALE)"
    and "py_int (distance_to_parent pf' * SCALE) = 0 \<Longrightarrow>
           orbit pf' = orbit pf @ [get_position h' self]"
  using Planet_update_position_orbit [OF assms(1)] assms(2,3)
  by (auto simp: Let_def split: if_splits)

lemma luna_neq_terra: "luna \<noteq> terra" "terra \<noteq> luna"
  by (simp_all add: luna_def terra_def)

lemma moon_store_terra:
  "moon_store terra = CelestialObject_init ''Earth'' 5 BLUE (5.9742 * 10 ^ 24) (0, 0) (0, 0)"
  by (simp add: moon_store_def Let_def set_position_def set_velocity_def luna_neq_terra)

lemma moon_store_luna:
  "moon_store luna =
     \<lparr>name = ''Moon'', radius = 2, color = GRAY, mass = 7.35 * 10 ^ 22,
      pos_x = 3.844 * 10 ^ 8, pos_y = 0, x_vel = 0, y_vel = 1022,
      planet_part = Some \<lparr>orbit = [], parent_star = terra, distance_to_parent = 0\<rparr>\<rparr>"
  by (simp add: moon_store_def Let_def set_position_def set_velocity_def luna_neq_terra
      Planet_init_def CelestialObject_init_def get_position_def math_dist_def)

lemma moon_store_update:
  "\<exists>h'. Planet_update_position moon_store luna [terra, luna] = Inr h'
      \<and> planet_part (h' luna)
          = Some \<lparr>orbit = [(luna_x, luna_y)], parent_star = terra,
                   distance_to_parent = sqrt (luna_x\<^sup>2 + luna_y\<^sup>2)\<rparr>
      \<and> get_position h' luna = (luna_x, luna_y)
      \<and> get_position h' terra = (0, 0)
      \<and> py_int (sqrt (luna_x\<^sup>2 + luna_y\<^sup>2) * SCALE) = 0"
proof -
  let ?fx = "- (G * (7.35 * 10 ^ 22) * (5.9742 * 10 ^ 24) / (3.844 * 10 ^ 8)\<^sup>2)"
  let ?xv = "?fx / (7.35 * 10 ^ 22) * TIME_STEP"
  have f: "calculate_force_vectors moon_store luna terra = Inr (?fx, 0)"
    by (simp add: calculate_force_vectors_same_y moon_store_luna moon_store_terra
        CelestialObject_init_def)
  have pl: "get_position moon_store luna = (3.844 * 10 ^ 8, 0)"
    and pt: "get_position moon_store terra = (0, 0)"
    by (simp_all add: get_position_def moon_store_luna moon_store_terra CelestialObject_init_def)
  let ?h1 = "moon_store(luna := (moon_store luna)\<lparr>x_vel := ?xv, y_vel := 1022, pos_x := luna_x, pos_y := luna_y\<rparr>)"
  have h1: "CelestialObject_update_position moon_store luna [terra, luna] = Inr ?h1"
    unfolding CelestialObject_update_position_eq
    by (simp add: luna_neq_terra pl pt f Let_def)
       (simp add: moon_store_luna G_def TIME_STEP_def luna_x_def luna_y_def)
  have pp: "planet_part (?h1 luna) = Some \<lparr>orbit = [], parent_star = terra, distance_to_parent = 0\<rparr>"
    by (simp add: moon_store_luna)
  have p1: "get_position ?h1 luna = (luna_x, luna_y)" "get_position ?h1 terra = (0, 0)"
    by (simp_all add: get_position_def luna_neq_terra moon_store_terra CelestialObject_init_def)
  have d: "math_dist (luna_x, luna_y) (0, 0) = sqrt (luna_x\<^sup>2 + luna_y\<^sup>2)"
    by (simp add: math_dist_def)
  have "luna_x\<^sup>2 + luna_y\<^sup>2 < (748 * 10 ^ 6)\<^sup>2"
    by (simp add: G_def TIME_STEP_def power2_eq_square luna_x_def luna_y_def)
  then have "sqrt (luna_x\<^sup>2 + luna_y\<^sup>2) < 748 * 10 ^ 6"
    by (intro real_less_lsqrt) simp_all
  then have small: "sqrt (luna_x\<^sup>2 + luna_y\<^sup>2) * SCALE < 1"
    and nonneg: "0 \<le> sqrt (luna_x\<^sup>2 + luna_y\<^sup>2) * SCALE"
    by (simp_all add: SCALE_def AU_def)
  have t: "py_int (sqrt (luna_x\<^sup>2 + luna_y\<^sup>2) * SCALE) = 0"
    using small nonneg unfolding py_int_def by (simp add: floor_eq_iff)
  show ?thesis
    unfolding Planet_update_position_def h1 using pp t
    by (simp add: Let_def slice_from_zero p1 d get_position_def luna_neq_terra
        moon_store_terra CelestialObject_init_def)
qed

text \<open>
  Claim C3. The claim bounds the length of the trail after every
  \<^verbatim>\<open>Planet.update_position\<close> by \<open>tail_length = \<lfloor>distance_to_parent * SCALE\<rfloor>\<close>. For the
  Moon, \<open>3.844 \<times> 10\<^sup>8\<close> m from the Earth, the update succeeds, the tail length is \<open>0\<close>, and
  the trail has length \<open>1\<close>.
\<close>

theorem trail_longer_than_tail_length:
  "\<exists>h' pf. Planet_update_position moon_store luna [terra, luna] = Inr h'
      \<and> planet_part (h' luna) = Some pf
      \<and> py_int (distance_to_parent pf * SCALE) = 0
      \<and> length (orbit pf) = 1"
  using moon_store_update by auto

section \<open>The setters\<close>

text \<open>
  Claim C9. \<^verbatim>\<open>set_position\<close> assigns the two position attributes of the body and
  \<^verbatim>\<open>set_velocity\<close> its two velocity attributes; every other attribute of the body,
  the attributes of a planet among them, and every other body stay as they are. A planet
  that is constructed and then moved and given a velocity has an empty trail and the
  distance to its parent computed from the positions at construction; a successful
  \<^verbatim>\<open>Planet.update_position\<close> sets the distance to the one between the current positions.
\<close>

theorem set_position_set_velocity_frame:
  "pos_x (set_position h r nx ny r) = nx \<and> pos_y (set_position h r nx ny r) = ny
   \<and> name (set_position h r nx ny r) = name (h r)
   \<and> radius (set_position h r nx ny r) = radius (h r)
   \<and> color (set_position h r nx ny r) = color (h r)
   \<and> mass (set_position h r nx ny r) = mass (h r)
   \<and> x_vel (set_position h r nx ny r) = x_vel (h r)
   \<and> y_vel (set_position h r nx ny r) = y_vel (h r)
   \<and> planet_part (set_position h r nx ny r) = planet_part (h r)
   \<and> x_vel (set_velocity h r vx vy r) = vx \<and> y_vel (set_velocity h r vx vy r) = vy
   \<and> name (set_velocity h r vx vy r) = name (h r)
   \<and> radius (set_velocity h r vx vy r) = radius (h r)
   \<and> color (set_velocity h r vx vy r) = color (h r)
   \<and> mass (set_velocity h r vx vy r) = mass (h r)
   \<and> pos_x (set_velocity h r vx vy r) = pos_x (h r)
   \<and> pos_y (set_velocity h r vx vy r) = pos_y (h r)
   \<and> planet_part (set_velocity h r vx vy r) = planet_part (h r)
   \<and> (\<forall>r'. r' \<noteq> r \<longrightarrow> set_position h r nx ny r' = h r' \<and> set_velocity h r vx vy r' = h r')
   \<and> (let h1 = h(r := Planet_init h nm parent rd cl ms position velocity);
           h2 = set_position h1 r nx ny;
           h3 = set_velocity h2 r vx vy
       in planet_part (h3 r)
            = Some \<lparr>orbit = [], parent_star = parent,
                     distance_to_parent = math_dist position (get_position h parent)\<rparr>)
   \<and> (\<forall>h'. Planet_update_position h r bodies = Inr h' \<longrightarrow>
         (\<exists>pf. planet_part (h' r) = Some pf
            \<and> distance_to_parent pf
                = math_dist (get_position h' r) (get_position h' (parent_star pf))))"
proof -
  have upd: "\<exists>pf. planet_part (h' r) = Some pf
            \<and> distance_to_parent pf
                = math_dist (get_position h' r) (get_position h' (parent_star pf))"
    if "Planet_update_position h r bodies = Inr h'" for h'
    using Planet_update_position_orbit [OF that] by blast
  have init: "(let h1 = h(r := Planet_init h nm parent rd cl ms position velocity);
           h2 = set_position h1 r nx ny;
           h3 = set_velocity h2 r vx vy
       in planet_part (h3 r)
            = Some \<lparr>orbit = [], parent_star = parent,
                     distance_to_parent = math_dist position (get_position h parent)\<rparr>)"
    by (simp add: Let_def set_position_def set_velocity_def Planet_init_def)
  show ?thesis
    using upd init by (simp add: set_position_def set_velocity_def)
qed

theorem set_position_set_velocity_frame_witness:
  "planet_part (moon_store luna) = Some \<lparr>orbit = [], parent_star = terra, distance_to_parent = 0\<rparr>
   \<and> math_dist (get_position moon_store luna) (get_position moon_store terra) = 3.844 * 10 ^ 8
   \<and> (\<exists>h' pf. Planet_update_position moon_store luna [terra, luna] = Inr h'
          \<and> planet_part (h' luna) = Some pf
          \<and> distance_to_parent pf = math_dist (get_position h' luna) (get_position h' (parent_star pf)))"
proof -
  let ?h = "line_store(terra := CelestialObject_init ''Earth'' 5 BLUE (5.9742 * 10 ^ 24) (0, 0) (0, 0))"
  note inst = set_position_set_velocity_frame
    [of ?h luna "3.844 * 10 ^ 8" 0 0 1022 "''Moon''" terra 2 GRAY "7.35 * 10 ^ 22" "(0, 0)" "(0, 0)"
       "[terra, luna]"]
  have stale: "planet_part (moon_store luna) = Some \<lparr>orbit = [], parent_star = terra, distance_to_parent = 0\<rparr>"
    using inst by (simp add: moon_store_def Let_def get_position_def CelestialObject_init_def math_dist_def)
  have actual: "math_dist (get_position moon_store luna) (get_position moon_store terra) = 3.844 * 10 ^ 8"
    by (simp add: get_position_def moon_store_luna moon_store_terra CelestialObject_init_def math_dist_same_y)
  obtain h' where h': "Planet_update_position moon_store luna [terra, luna] = Inr h'"
    using moon_store_update by blast
  have "\<exists>pf. planet_part (h' luna) = Some pf
          \<and> distance_to_parent pf = math_dist (get_position h' luna) (get_position h' (parent_star pf))"
    using set_position_set_velocity_frame [of moon_store luna _ _ _ _ _ _ _ _ _ _ _ "[terra, luna]"] h'
    by blast
  with stale actual h' show ?thesis
    by blast
qed

section \<open>The nearest neighbour\<close>

lemma first_nearest_le:
  assumes "first_nearest h p cs c" and "q \<in> set cs"
  shows "math_dist (get_position h p) (get_position h c) \<le> math_dist (get_position h p) (get_position h q)"
  using assms unfolding first_nearest_def by fastforce

lemma first_nearest_mem: "first_nearest h p cs c \<Longrightarrow> c \<in> set cs"
  unfolding first_nearest_def by auto


lemma closest_loop_filter:
  "closest_loop h p xs cn cd = closest_loop h p (filter (\<lambda>q. q \<noteq> p) xs) cn cd"
  by (induction xs arbitrary: cn cd) (simp_all add: Let_def)

lemma closest_loop_from:
  assumes "p \<notin> set xs"
  shows "\<exists>r. closest_loop h p xs (Some c0) (Distance (math_dist (get_position h p) (get_position h c0))) = Some r
           \<and> first_nearest h p (c0 # xs) r"
  using assms
proof (induction xs arbitrary: c0)
  case Nil
  have "first_nearest h p [c0] c0"
    unfolding first_nearest_def by (intro exI [of _ "[]"]) simp
  then show ?case by simp
next
  case (Cons x xs)
  let ?d = "\<lambda>q. math_dist (get_position h p) (get_position h q)"
  have xp: "x \<noteq> p" and pxs: "p \<notin> set xs"
    using Cons.prems by auto
  show ?case
  proof (cases "?d x < ?d c0")
    case True
    obtain r where r: "closest_loop h p xs (Some x) (Distance (?d x)) = Some r"
      and fn: "first_nearest h p (x # xs) r"
      using Cons.IH [OF pxs, of x] by blast
    obtain pre post where dec: "x # xs = pre @ r # post" "\<forall>q\<in>set pre. ?d r < ?d q" "\<forall>q\<in>set post. ?d r \<le> ?d q"
      using fn unfolding first_nearest_def by blast
    have "?d r \<le> ?d x"
      using first_nearest_le [OF fn, of x] by simp
    then have "?d r < ?d c0"
      using True by simp
    then have "first_nearest h p (c0 # x # xs) r"
      unfolding first_nearest_def using dec
      by (intro exI [of _ "c0 # pre"] exI [of _ post]) simp
    then show ?thesis
      using True xp r by (simp add: Let_def)
  next
    case False
    obtain r where r: "closest_loop h p xs (Some c0) (Distance (?d c0)) = Some r"
      and fn: "first_nearest h p (c0 # xs) r"
      using Cons.IH [OF pxs, of c0] by blast
    obtain pre post where dec: "c0 # xs = pre @ r # post" "\<forall>q\<in>set pre. ?d r < ?d q" "\<forall>q\<in>set post. ?d r \<le> ?d q"
      using fn unfolding first_nearest_def by blast
    have "first_nearest h p (c0 # x # xs) r"
    proof (cases pre)
      case Nil
      then have "r = c0" "post = xs"
        using dec(1) by simp_all
      then show ?thesis
        unfolding first_nearest_def using dec False
        by (intro exI [of _ "[]"] exI [of _ "x # xs"]) simp
    next
      case (Cons a pre')
      then have a: "a = c0" and xs: "xs = pre' @ r # post"
        using dec(1) by simp_all
      have "?d r < ?d c0"
        using dec(2) Cons a by simp
      then have "?d r < ?d x"
        using False by simp
      then show ?thesis
        unfolding first_nearest_def using dec(2,3) Cons a xs
        by (intro exI [of _ "c0 # x # pre'"] exI [of _ post]) simp
    qed
    then show ?thesis
      using False xp r by (simp add: Let_def)
  qed
qed

lemma mostest_closest_neighbour_eq:
  "mostest_closest_neighbour h p xs =
     (case filter (\<lambda>q. q \<noteq> p) xs of
        [] \<Rightarrow> None
      | c0 # cs \<Rightarrow> closest_loop h p cs (Some c0) (Distance (math_dist (get_position h p) (get_position h c0))))"
proof -
  have "mostest_closest_neighbour h p xs = closest_loop h p (filter (\<lambda>q. q \<noteq> p) xs) None math_inf"
    unfolding mostest_closest_neighbour_def by (rule closest_loop_filter)
  also have "\<dots> = (case filter (\<lambda>q. q \<noteq> p) xs of
        [] \<Rightarrow> None
      | c0 # cs \<Rightarrow> closest_loop h p cs (Some c0) (Distance (math_dist (get_position h p) (get_position h c0))))"
  proof (cases "filter (\<lambda>q. q \<noteq> p) xs")
    case Nil
    then show ?thesis by simp
  next
    case (Cons c0 cs)
    then have "c0 \<in> set (filter (\<lambda>q. q \<noteq> p) xs)" by simp
    then have "c0 \<noteq> p" by simp
    then show ?thesis
      using Cons by (simp add: Let_def)
  qed
  finally show ?thesis .
qed

lemma mostest_closest_neighbour_cases:
  "(filter (\<lambda>q. q \<noteq> p) xs = [] \<and> mostest_closest_neighbour h p xs = None)
   \<or> (\<exists>c. mostest_closest_neighbour h p xs = Some c \<and> first_nearest h p (filter (\<lambda>q. q \<noteq> p) xs) c)"
proof (cases "filter (\<lambda>q. q \<noteq> p) xs")
  case Nil
  then show ?thesis
    by (simp add: mostest_closest_neighbour_eq)
next
  case (Cons c0 cs)
  have "p \<notin> set (c0 # cs)"
    unfolding Cons [symmetric] by simp
  then have "p \<notin> set cs" by simp
  from closest_loop_from [OF this, of h c0] show ?thesis
    by (simp add: mostest_closest_neighbour_eq Cons)
qed



section \<open>The default scenario\<close>

lemma body_neq:
  "sun \<noteq> mercury" "sun \<noteq> venus" "sun \<noteq> earth" "sun \<noteq> mars"
  "mercury \<noteq> sun" "mercury \<noteq> venus" "mercury \<noteq> earth" "mercury \<noteq> mars"
  "venus \<noteq> sun" "venus \<noteq> mercury" "venus \<noteq> earth" "venus \<noteq> mars"
  "earth \<noteq> sun" "earth \<noteq> mercury" "earth \<noteq> venus" "earth \<noteq> mars"
  "mars \<noteq> sun" "mars \<noteq> mercury" "mars \<noteq> venus" "mars \<noteq> earth"
  by (simp_all add: sun_def mercury_def venus_def earth_def mars_def)

lemma initial_heap_sun:
  "initial_heap h0 sun =
     \<lparr>name = ''Sun'', radius = 16, color = YELLOW, mass = 1.98892 * 10 ^ 30,
      pos_x = 0, pos_y = 0, x_vel = 0, y_vel = 0, planet_part = None\<rparr>"
  by (simp add: initial_heap_def Let_def set_position_def set_velocity_def
      CelestialObject_init_def body_neq)

lemma initial_heap_mercury:
  "initial_heap h0 mercury =
     \<lparr>name = ''Mercury'', radius = 4, color = GRAY, mass = 3.30 * 10 ^ 23,
      pos_x = 0.387 * AU, pos_y = 0, x_vel = 0, y_vel = 47400,
      planet_part = Some \<lparr>orbit = [], parent_star = sun, distance_to_parent = 0\<rparr>\<rparr>"
  by (simp add: initial_heap_def Let_def set_position_def set_velocity_def Planet_init_def
      CelestialObject_init_def get_position_def math_dist_def body_neq)

lemma initial_heap_venus:
  "initial_heap h0 venus =
     \<lparr>name = ''Venus'', radius = 5, color = ORANGE, mass = 4.8685 * 10 ^ 24,
      pos_x = - 0.723 * AU, pos_y = 0, x_vel = 0, y_vel = - 35020,
      planet_part = Some \<lparr>orbit = [], parent_star = sun, distance_to_parent = 0\<rparr>\<rparr>"
  by (simp add: initial_heap_def Let_def set_position_def set_velocity_def Planet_init_def
      CelestialObject_init_def get_position_def math_dist_def body_neq)

lemma initial_heap_earth:
  "initial_heap h0 earth =
     \<lparr>name = ''Earth'', radius = 5, color = BLUE, mass = 5.9742 * 10 ^ 24,
      pos_x = 1 * AU, pos_y = 0, x_vel = 0, y_vel = 29783,
      planet_part = Some \<lparr>orbit = [], parent_star = sun, distance_to_parent = 0\<rparr>\<rparr>"
  by (simp add: initial_heap_def Let_def set_position_def set_velocity_def Planet_init_def
      CelestialObject_init_def get_position_def math_dist_def body_neq)

lemma initial_heap_mars:
  "initial_heap h0 mars =
     \<lparr>name = ''Mars'', radius = 4, color = RED, mass = 6.39 * 10 ^ 23,
      pos_x = - 1.524 * AU, pos_y = 0, x_vel = 0, y_vel = - 24077,
      planet_part = Some \<lparr>orbit = [], parent_star = sun, distance_to_parent = 0\<rparr>\<rparr>"
  by (simp add: initial_heap_def Let_def set_position_def set_velocity_def Planet_init_def
      CelestialObject_init_def get_position_def math_dist_def body_neq)

lemma initial_closest_count_eq:
  "initial_closest_count = [(mercury, 0), (venus, 0), (mars, 0)]"
  by (simp add: initial_closest_count_def planet_list_def body_neq)

section \<open>The update of the whole system\<close>

text \<open>
  An update succeeds when the body has a mass other than \<open>0\<close> and no other entry of the
  list is at its position; it changes the body alone.
\<close>

lemma update_position_succeeds:
  assumes m: "mass (h self) \<noteq> 0"
    and apart: "list_all (\<lambda>b. b = self \<or> get_position h b \<noteq> get_position h self) bodies"
  shows "\<exists>h'. update_position h self bodies = Inr h'
           \<and> (\<forall>r. r \<noteq> self \<longrightarrow> h' r = h r)
           \<and> mass (h' self) = mass (h self)
           \<and> x_vel (h' self) = x_vel (h self)
               + (\<Sum>b\<leftarrow>filter (\<lambda>b. b \<noteq> self) bodies. fst (projr (calculate_force_vectors h self b)))
                   / mass (h self) * TIME_STEP
           \<and> y_vel (h' self) = y_vel (h self)
               + (\<Sum>b\<leftarrow>filter (\<lambda>b. b \<noteq> self) bodies. snd (projr (calculate_force_vectors h self b)))
                   / mass (h self) * TIME_STEP
           \<and> pos_x (h' self) = pos_x (h self) + x_vel (h' self) * TIME_STEP
           \<and> pos_y (h' self) = pos_y (h self) + y_vel (h' self) * TIME_STEP"
proof -
  let ?xv = "x_vel (h self)
               + (\<Sum>b\<leftarrow>filter (\<lambda>b. b \<noteq> self) bodies. fst (projr (calculate_force_vectors h self b)))
                   / mass (h self) * TIME_STEP"
  let ?yv = "y_vel (h self)
               + (\<Sum>b\<leftarrow>filter (\<lambda>b. b \<noteq> self) bodies. snd (projr (calculate_force_vectors h self b)))
                   / mass (h self) * TIME_STEP"
  let ?h1 = "h(self := (h self)\<lparr>x_vel := ?xv, y_vel := ?yv,
                pos_x := pos_x (h self) + ?xv * TIME_STEP,
                pos_y := pos_y (h self) + ?yv * TIME_STEP\<rparr>)"
  have no: "\<not> (\<exists>b\<in>set (filter (\<lambda>b. b \<noteq> self) bodies). get_position h b = get_position h self)"
    using apart by (auto simp: list_all_iff)
  have base: "CelestialObject_update_position h self bodies = Inr ?h1"
    unfolding CelestialObject_update_position_eq using no m by (simp add: Let_def)
  show ?thesis
  proof (cases "planet_part (h self)")
    case None
    then have "update_position h self bodies = Inr ?h1"
      by (simp add: update_position_def base)
    then show ?thesis
      by simp
  next
    case (Some pf)
    then have pp: "planet_part (?h1 self) = Some pf"
      by simp
    obtain h' pf' where h': "Planet_update_position h self bodies = Inr h'"
      and eq: "h' = ?h1(self := (?h1 self)\<lparr>planet_part := Some pf'\<rparr>)"
      unfolding Planet_update_position_def base using pp
      by (simp add: Let_def)
    have "update_position h self bodies = Inr h'"
      by (simp add: update_position_def Some h')
    then show ?thesis
      by (simp add: eq)
  qed
qed

lemma accel_y_bound:
  assumes dy: "pos_y (h a) \<noteq> pos_y (h b)" and m: "mass (h a) \<noteq> 0"
  shows "\<bar>snd (projr (calculate_force_vectors h a b)) / mass (h a)\<bar>
           \<le> G * \<bar>mass (h b)\<bar> / (pos_y (h b) - pos_y (h a))\<^sup>2"
proof -
  let ?d = "math_dist (get_position h a) (get_position h b)"
  let ?dy = "pos_y (h b) - pos_y (h a)"
  have ne: "get_position h a \<noteq> get_position h b"
    using dy by (auto simp: get_position_def)
  then have d_pos: "0 < ?d"
    by (simp add: math_dist_pos)
  have dy_pos: "0 < ?dy\<^sup>2"
    using dy by simp
  have sq: "?dy\<^sup>2 \<le> ?d\<^sup>2"
    by (simp add: math_dist_sq get_position_def power2_commute)
  then have "\<bar>?dy\<bar> \<le> \<bar>?d\<bar>"
    by (simp only: abs_le_square_iff)
  then have "\<bar>?dy\<bar> \<le> ?d"
    using d_pos by simp
  then have unit: "\<bar>?dy\<bar> / ?d \<le> 1"
    using d_pos by simp
  have G_nonneg: "0 \<le> G"
    by (simp add: G_def)
  have "snd (projr (calculate_force_vectors h a b)) / mass (h a)
          = G * mass (h b) / ?d\<^sup>2 * (?dy / ?d)"
    using m by (simp add: calculate_force_vectors_radial [OF ne])
  then have "\<bar>snd (projr (calculate_force_vectors h a b)) / mass (h a)\<bar>
          = G * \<bar>mass (h b)\<bar> / ?d\<^sup>2 * (\<bar>?dy\<bar> / ?d)"
    using G_nonneg d_pos by (simp add: abs_mult)
  also have "\<dots> \<le> G * \<bar>mass (h b)\<bar> / ?d\<^sup>2 * 1"
    by (intro mult_left_mono unit) (simp add: G_nonneg)
  also have "\<dots> \<le> G * \<bar>mass (h b)\<bar> / ?dy\<^sup>2"
    using dy_pos sq G_nonneg by (simp add: frac_le)
  finally show ?thesis .
qed

lemma force_y_same_y:
  assumes "pos_y (h a) = pos_y (h b)" and "pos_x (h a) \<noteq> pos_x (h b)"
  shows "snd (projr (calculate_force_vectors h a b)) = 0"
  by (simp add: calculate_force_vectors_same_y [OF assms])

text \<open>An update raises nothing but \<^verbatim>\<open>ZeroDivisionError\<close>.\<close>

lemma CelestialObject_update_position_error:
  "CelestialObject_update_position h self bodies = Inl e \<Longrightarrow> e = ZeroDivisionError"
  unfolding CelestialObject_update_position_eq by (simp add: Let_def split: if_splits)

lemma Planet_update_position_error:
  assumes "Planet_update_position h self bodies = Inl e" and "planet_part (h self) \<noteq> None"
  shows "e = ZeroDivisionError"
proof (cases "CelestialObject_update_position h self bodies")
  case (Inl e')
  then show ?thesis
    using assms(1) CelestialObject_update_position_error [OF Inl]
    by (simp add: Planet_update_position_def)
next
  case (Inr h1)
  have "planet_part (h1 self) \<noteq> None"
    using CelestialObject_update_position_frame(1) [OF Inr, of self] assms(2) by simp
  then show ?thesis
    using assms(1) Inr by (auto simp: Planet_update_position_def Let_def)
qed

lemma update_position_error:
  "update_position h self bodies = Inl e \<Longrightarrow> e = ZeroDivisionError"
  unfolding update_position_def
  by (auto split: option.splits
      dest: CelestialObject_update_position_error Planet_update_position_error)

lemma update_planets_error:
  "update_planets h bodies ps = Inl e \<Longrightarrow> e = ZeroDivisionError"
  by (induction ps arbitrary: h) (auto split: sum.splits dest: update_position_error)

lemma update_positions_error:
  "update_positions h s = Inl e \<Longrightarrow> e = ZeroDivisionError"
  unfolding update_positions_def
  by (auto split: sum.splits dest: update_position_error update_planets_error)

lemma update_planets_chain:
  "(update_planets h bodies ps = Inr h') =
     (\<exists>hs. length hs = Suc (length ps) \<and> hs ! 0 = h
        \<and> (\<forall>i<length ps. update_position (hs ! i) (ps ! i) bodies = Inr (hs ! Suc i))
        \<and> hs ! length ps = h')"
proof (induction ps arbitrary: h)
  case Nil
  show ?case
  proof
    assume "update_planets h bodies [] = Inr h'"
    then show "\<exists>hs. length hs = Suc (length []) \<and> hs ! 0 = h
        \<and> (\<forall>i<length []. update_position (hs ! i) ([] ! i) bodies = Inr (hs ! Suc i))
        \<and> hs ! length [] = h'"
      by (intro exI [of _ "[h]"]) simp
  next
    assume "\<exists>hs. length hs = Suc (length []) \<and> hs ! 0 = h
        \<and> (\<forall>i<length []. update_position (hs ! i) ([] ! i) bodies = Inr (hs ! Suc i))
        \<and> hs ! length [] = h'"
    then show "update_planets h bodies [] = Inr h'"
      by auto
  qed
next
  case (Cons p ps)
  show ?case
  proof
    assume run: "update_planets h bodies (p # ps) = Inr h'"
    then obtain h1 where h1: "update_position h p bodies = Inr h1"
      and rest: "update_planets h1 bodies ps = Inr h'"
      by (auto split: sum.splits)
    obtain hs where hs: "length hs = Suc (length ps)" "hs ! 0 = h1"
      "\<forall>i<length ps. update_position (hs ! i) (ps ! i) bodies = Inr (hs ! Suc i)"
      "hs ! length ps = h'"
      using rest unfolding Cons.IH by blast
    have "\<forall>i<length (p # ps). update_position ((h # hs) ! i) ((p # ps) ! i) bodies = Inr ((h # hs) ! Suc i)"
    proof (intro allI impI)
      fix i assume "i < length (p # ps)"
      then show "update_position ((h # hs) ! i) ((p # ps) ! i) bodies = Inr ((h # hs) ! Suc i)"
        using h1 hs by (cases i) simp_all
    qed
    then show "\<exists>hs. length hs = Suc (length (p # ps)) \<and> hs ! 0 = h
        \<and> (\<forall>i<length (p # ps). update_position (hs ! i) ((p # ps) ! i) bodies = Inr (hs ! Suc i))
        \<and> hs ! length (p # ps) = h'"
      using hs by (intro exI [of _ "h # hs"]) simp
  next
    assume "\<exists>hs. length hs = Suc (length (p # ps)) \<and> hs ! 0 = h
        \<and> (\<forall>i<length (p # ps). update_position (hs ! i) ((p # ps) ! i) bodies = Inr (hs ! Suc i))
        \<and> hs ! length (p # ps) = h'"
    then obtain hs where hs: "length hs = Suc (length (p # ps))" "hs ! 0 = h"
      "\<forall>i<length (p # ps). update_position (hs ! i) ((p # ps) ! i) bodies = Inr (hs ! Suc i)"
      "hs ! length (p # ps) = h'"
      by blast
    then obtain hs1 where shape: "hs = h # hs1"
      by (cases hs) auto
    have first: "update_position h p bodies = Inr (hs1 ! 0)"
      using hs(3) shape by fastforce
    have "\<forall>i<length ps. update_position (hs1 ! i) (ps ! i) bodies = Inr (hs1 ! Suc i)"
    proof (intro allI impI)
      fix i assume "i < length ps"
      then have "Suc i < length (p # ps)" by simp
      from hs(3) [rule_format, OF this] show "update_position (hs1 ! i) (ps ! i) bodies = Inr (hs1 ! Suc i)"
        by (simp add: shape)
    qed
    moreover have "length hs1 = Suc (length ps)" "hs1 ! length ps = h'"
      using hs(1,4) shape by simp_all
    ultimately have "update_planets (hs1 ! 0) bodies ps = Inr h'"
      unfolding Cons.IH by blast
    then show "update_planets h bodies (p # ps) = Inr h'"
      using first by simp
  qed
qed

text \<open>
  Claim C5. \<^verbatim>\<open>SolarSystem.update_positions\<close> succeeds with the store \<open>h'\<close> exactly when
  there are stores \<open>hs\<close> such that the update of the star, with the planets as the other
  bodies, takes the store before the tick to \<open>hs ! 0\<close>; the update of the \<open>i\<close>-th planet,
  with the star and all planets as the bodies, takes \<open>hs ! i\<close> to \<open>hs ! (i + 1)\<close>; and the
  last store is \<open>h'\<close>. So the star is updated on the positions before the tick, and each
  planet on a store in which the star and the planets before it are already updated.
\<close>

theorem update_positions_in_sequence:
  "(update_positions h s = Inr h') =
     (\<exists>hs. length hs = Suc (length (planets s))
        \<and> update_position h (star s) (planets s) = Inr (hs ! 0)
        \<and> (\<forall>i<length (planets s).
              update_position (hs ! i) (planets s ! i) (star s # planets s) = Inr (hs ! Suc i))
        \<and> hs ! length (planets s) = h')"
proof -
  have "(update_positions h s = Inr h') =
          (\<exists>h1. update_position h (star s) (planets s) = Inr h1
             \<and> update_planets h1 (star s # planets s) (planets s) = Inr h')"
    by (auto simp: update_positions_def split: sum.splits)
  then show ?thesis
    unfolding update_planets_chain by metis
qed

text \<open>
  The first tick of the default scenario. After the update of the star all bodies are
  still on the x-axis; each planet leaves the axis when it is updated, Mercury and the
  Earth upwards and Venus downwards, so no two bodies meet and every update succeeds.
\<close>

lemmas initial_heap_bodies =
  initial_heap_sun initial_heap_mercury initial_heap_venus initial_heap_earth initial_heap_mars

lemma first_tick_updates:
  "\<exists>h1 h2 h3 h4 h5.
      update_position (initial_heap h0) sun planet_list = Inr h1
    \<and> update_position h1 mercury (sun # planet_list) = Inr h2
    \<and> update_position h2 venus (sun # planet_list) = Inr h3
    \<and> update_position h3 earth (sun # planet_list) = Inr h4
    \<and> update_position h4 mars (sun # planet_list) = Inr h5
    \<and> h1 mercury = initial_heap h0 mercury
    \<and> pos_y (h2 mercury) = 47400 * TIME_STEP
    \<and> h2 venus = initial_heap h0 venus
    \<and> pos_y (h3 venus) < 0
    \<and> h3 earth = initial_heap h0 earth
    \<and> 0 < pos_y (h4 earth)"
proof -
  let ?H = "initial_heap h0"
  note H = initial_heap_bodies [of h0]
  let ?bodies = "sun # planet_list"
  have bodies: "?bodies = [sun, mercury, venus, earth, mars]"
    by (simp add: planet_list_def)

  \<comment> \<open>the star\<close>
  have "mass (?H sun) \<noteq> 0"
    by (simp add: H)
  moreover have "list_all (\<lambda>b. b = sun \<or> get_position ?H b \<noteq> get_position ?H sun) planet_list"
    by (simp add: planet_list_def get_position_def H AU_def)
  ultimately obtain h1 where u1: "update_position ?H sun planet_list = Inr h1"
    and fr1: "\<forall>r. r \<noteq> sun \<longrightarrow> h1 r = ?H r"
    and m1: "mass (h1 sun) = mass (?H sun)"
    and xv1: "x_vel (h1 sun) = x_vel (?H sun)
               + (\<Sum>b\<leftarrow>filter (\<lambda>b. b \<noteq> sun) planet_list. fst (projr (calculate_force_vectors ?H sun b)))
                   / mass (?H sun) * TIME_STEP"
    and yv1: "y_vel (h1 sun) = y_vel (?H sun)
               + (\<Sum>b\<leftarrow>filter (\<lambda>b. b \<noteq> sun) planet_list. snd (projr (calculate_force_vectors ?H sun b)))
                   / mass (?H sun) * TIME_STEP"
    and px1: "pos_x (h1 sun) = pos_x (?H sun) + x_vel (h1 sun) * TIME_STEP"
    and py1: "pos_y (h1 sun) = pos_y (?H sun) + y_vel (h1 sun) * TIME_STEP"
    using update_position_succeeds [of ?H sun planet_list] by blast
  have e1: "h1 mercury = ?H mercury" "h1 venus = ?H venus" "h1 earth = ?H earth" "h1 mars = ?H mars"
    using fr1 by (simp_all add: body_neq)
  have f1: "calculate_force_vectors ?H sun mercury
              = Inr (G * mass (?H sun) * mass (?H mercury) / (pos_x (?H mercury) - pos_x (?H sun))\<^sup>2, 0)"
    "calculate_force_vectors ?H sun venus
              = Inr (- (G * mass (?H sun) * mass (?H venus) / (pos_x (?H venus) - pos_x (?H sun))\<^sup>2), 0)"
    "calculate_force_vectors ?H sun earth
              = Inr (G * mass (?H sun) * mass (?H earth) / (pos_x (?H earth) - pos_x (?H sun))\<^sup>2, 0)"
    "calculate_force_vectors ?H sun mars
              = Inr (- (G * mass (?H sun) * mass (?H mars) / (pos_x (?H mars) - pos_x (?H sun))\<^sup>2), 0)"
    by (simp_all add: calculate_force_vectors_same_y H AU_def)
  have sy1: "pos_y (h1 sun) = 0"
    unfolding py1 yv1 by (simp add: planet_list_def body_neq f1) (simp add: H)
  have sx1: "\<bar>pos_x (h1 sun)\<bar> < 1000"
    unfolding px1 xv1
    by (simp add: planet_list_def body_neq f1) (simp add: H AU_def G_def TIME_STEP_def)
  have sm1: "mass (h1 sun) = 1.98892 * 10 ^ 30"
    by (simp add: m1 H)
  have sne1: "pos_x (h1 sun) \<noteq> 0.387 * AU" "pos_x (h1 sun) \<noteq> - 0.723 * AU"
    "pos_x (h1 sun) \<noteq> 1 * AU" "pos_x (h1 sun) \<noteq> - 1.524 * AU"
    using sx1 by (auto simp: AU_def)

  \<comment> \<open>Mercury\<close>
  have "mass (h1 mercury) \<noteq> 0"
    by (simp add: e1 H)
  moreover have "list_all (\<lambda>b. b = mercury \<or> get_position h1 b \<noteq> get_position h1 mercury) ?bodies"
    using sne1 by (simp add: bodies body_neq get_position_def e1 H sy1 AU_def)
  ultimately obtain h2 where u2: "update_position h1 mercury ?bodies = Inr h2"
    and fr2: "\<forall>r. r \<noteq> mercury \<longrightarrow> h2 r = h1 r"
    and m2: "mass (h2 mercury) = mass (h1 mercury)"
    and yv2: "y_vel (h2 mercury) = y_vel (h1 mercury)
               + (\<Sum>b\<leftarrow>filter (\<lambda>b. b \<noteq> mercury) ?bodies. snd (projr (calculate_force_vectors h1 mercury b)))
                   / mass (h1 mercury) * TIME_STEP"
    and py2: "pos_y (h2 mercury) = pos_y (h1 mercury) + y_vel (h2 mercury) * TIME_STEP"
    using update_position_succeeds [of h1 mercury ?bodies] by blast
  have e2: "h2 sun = h1 sun" "h2 venus = ?H venus" "h2 earth = ?H earth" "h2 mars = ?H mars"
    using fr2 by (simp_all add: body_neq e1)
  have "pos_x (h1 mercury) \<noteq> pos_x (h1 sun)"
    using sne1 by (simp add: e1 H AU_def)
  then have f2: "snd (projr (calculate_force_vectors h1 mercury sun)) = 0"
    "snd (projr (calculate_force_vectors h1 mercury venus)) = 0"
    "snd (projr (calculate_force_vectors h1 mercury earth)) = 0"
    "snd (projr (calculate_force_vectors h1 mercury mars)) = 0"
    by (simp_all add: force_y_same_y e1 H AU_def sy1)
  have my2: "pos_y (h2 mercury) = 47400 * TIME_STEP"
    unfolding py2 yv2 by (simp add: bodies body_neq f2) (simp add: e1 H)
  have mm2: "mass (h2 mercury) = 3.30 * 10 ^ 23"
    by (simp add: m2 e1 H)

  \<comment> \<open>Venus\<close>
  have "mass (h2 venus) \<noteq> 0"
    by (simp add: e2 H)
  moreover have "list_all (\<lambda>b. b = venus \<or> get_position h2 b \<noteq> get_position h2 venus) ?bodies"
    using sne1 by (simp add: bodies body_neq get_position_def e2 H sy1 my2 TIME_STEP_def AU_def)
  ultimately obtain h3 where u3: "update_position h2 venus ?bodies = Inr h3"
    and fr3: "\<forall>r. r \<noteq> venus \<longrightarrow> h3 r = h2 r"
    and m3: "mass (h3 venus) = mass (h2 venus)"
    and yv3: "y_vel (h3 venus) = y_vel (h2 venus)
               + (\<Sum>b\<leftarrow>filter (\<lambda>b. b \<noteq> venus) ?bodies. snd (projr (calculate_force_vectors h2 venus b)))
                   / mass (h2 venus) * TIME_STEP"
    and py3: "pos_y (h3 venus) = pos_y (h2 venus) + y_vel (h3 venus) * TIME_STEP"
    using update_position_succeeds [of h2 venus ?bodies] by blast
  have e3: "h3 sun = h1 sun" "h3 mercury = h2 mercury" "h3 earth = ?H earth" "h3 mars = ?H mars"
    using fr3 by (simp_all add: body_neq e2)
  have "pos_x (h2 venus) \<noteq> pos_x (h2 sun)"
    using sne1 by (simp add: e2 H AU_def)
  then have f3: "snd (projr (calculate_force_vectors h2 venus sun)) = 0"
    "snd (projr (calculate_force_vectors h2 venus earth)) = 0"
    "snd (projr (calculate_force_vectors h2 venus mars)) = 0"
    by (simp_all add: force_y_same_y e2 H AU_def sy1)
  have "\<bar>snd (projr (calculate_force_vectors h2 venus mercury)) / mass (h2 venus)\<bar>
          \<le> G * \<bar>mass (h2 mercury)\<bar> / (pos_y (h2 mercury) - pos_y (h2 venus))\<^sup>2"
    by (rule accel_y_bound) (simp_all add: e2 H my2 TIME_STEP_def)
  also have "\<dots> \<le> 1 / 10 ^ 5"
    by (simp add: e2 H my2 mm2 TIME_STEP_def G_def)
  finally have b3: "\<bar>snd (projr (calculate_force_vectors h2 venus mercury)) / mass (h2 venus)\<bar> \<le> 1 / 10 ^ 5" .
  have vv3: "y_vel (h3 venus) = - 35020 + snd (projr (calculate_force_vectors h2 venus mercury)) / mass (h2 venus) * TIME_STEP"
    unfolding yv3 by (simp add: bodies body_neq f3) (simp add: e2 H)
  have vy3: "pos_y (h3 venus) \<le> - 35019 * TIME_STEP"
    unfolding py3 vv3 using b3 by (simp add: e2 H TIME_STEP_def)
  have vm3: "mass (h3 venus) = 4.8685 * 10 ^ 24"
    by (simp add: m3 e2 H)

  \<comment> \<open>the Earth\<close>
  have "mass (h3 earth) \<noteq> 0"
    by (simp add: e3 H)
  moreover have "list_all (\<lambda>b. b = earth \<or> get_position h3 b \<noteq> get_position h3 earth) ?bodies"
    using sne1 vy3 by (simp add: bodies body_neq get_position_def e3 H sy1 my2 TIME_STEP_def AU_def)
  ultimately obtain h4 where u4: "update_position h3 earth ?bodies = Inr h4"
    and fr4: "\<forall>r. r \<noteq> earth \<longrightarrow> h4 r = h3 r"
    and yv4: "y_vel (h4 earth) = y_vel (h3 earth)
               + (\<Sum>b\<leftarrow>filter (\<lambda>b. b \<noteq> earth) ?bodies. snd (projr (calculate_force_vectors h3 earth b)))
                   / mass (h3 earth) * TIME_STEP"
    and py4: "pos_y (h4 earth) = pos_y (h3 earth) + y_vel (h4 earth) * TIME_STEP"
    using update_position_succeeds [of h3 earth ?bodies] by blast
  have e4: "h4 sun = h1 sun" "h4 mercury = h2 mercury" "h4 venus = h3 venus" "h4 mars = ?H mars"
    using fr4 by (simp_all add: body_neq e3)
  have "pos_x (h3 earth) \<noteq> pos_x (h3 sun)"
    using sne1 by (simp add: e3 H AU_def)
  then have f4: "snd (projr (calculate_force_vectors h3 earth sun)) = 0"
    "snd (projr (calculate_force_vectors h3 earth mars)) = 0"
    by (simp_all add: force_y_same_y e3 H AU_def sy1)
  have "\<bar>snd (projr (calculate_force_vectors h3 earth mercury)) / mass (h3 earth)\<bar>
          \<le> G * \<bar>mass (h3 mercury)\<bar> / (pos_y (h3 mercury) - pos_y (h3 earth))\<^sup>2"
    by (rule accel_y_bound) (simp_all add: e3 H my2 TIME_STEP_def)
  also have "\<dots> \<le> 1 / 10 ^ 5"
    by (simp add: e3 H my2 mm2 TIME_STEP_def G_def)
  finally have b4m: "\<bar>snd (projr (calculate_force_vectors h3 earth mercury)) / mass (h3 earth)\<bar> \<le> 1 / 10 ^ 5" .
  have "\<bar>35019 * TIME_STEP\<bar> \<le> \<bar>pos_y (h3 venus)\<bar>"
    using vy3 by (simp add: TIME_STEP_def)
  then have far: "(35019 * TIME_STEP)\<^sup>2 \<le> (pos_y (h3 venus))\<^sup>2"
    by (simp only: abs_le_square_iff)
  have "\<bar>snd (projr (calculate_force_vectors h3 earth venus)) / mass (h3 earth)\<bar>
          \<le> G * \<bar>mass (h3 venus)\<bar> / (pos_y (h3 venus) - pos_y (h3 earth))\<^sup>2"
    using vy3 by (intro accel_y_bound) (simp_all add: e3 H TIME_STEP_def)
  also have "\<dots> = G * (4.8685 * 10 ^ 24) / (pos_y (h3 venus))\<^sup>2"
    by (simp add: e3 H vm3)
  also have "\<dots> \<le> G * (4.8685 * 10 ^ 24) / (35019 * TIME_STEP)\<^sup>2"
    using far vy3 by (intro divide_left_mono) (simp_all add: G_def TIME_STEP_def)
  also have "\<dots> \<le> 1 / 10 ^ 4"
    by (simp add: G_def TIME_STEP_def)
  finally have b4v: "\<bar>snd (projr (calculate_force_vectors h3 earth venus)) / mass (h3 earth)\<bar> \<le> 1 / 10 ^ 4" .
  have ev4: "y_vel (h4 earth) = 29783
      + (snd (projr (calculate_force_vectors h3 earth mercury)) / mass (h3 earth)
         + snd (projr (calculate_force_vectors h3 earth venus)) / mass (h3 earth)) * TIME_STEP"
    unfolding yv4 by (simp add: bodies body_neq f4 add_divide_distrib) (simp add: e3 H)
  have ey4: "0 < pos_y (h4 earth)"
    unfolding py4 ev4 using b4m b4v by (simp add: e3 H TIME_STEP_def)

  \<comment> \<open>Mars\<close>
  have "mass (h4 mars) \<noteq> 0"
    by (simp add: e4 H)
  moreover have "list_all (\<lambda>b. b = mars \<or> get_position h4 b \<noteq> get_position h4 mars) ?bodies"
    using sne1 vy3 ey4 by (simp add: bodies body_neq get_position_def e4 H sy1 my2 TIME_STEP_def AU_def)
  ultimately obtain h5 where u5: "update_position h4 mars ?bodies = Inr h5"
    using update_position_succeeds [of h4 mars ?bodies] by blast
  have "pos_y (h3 venus) < 0"
    using vy3 by (simp add: TIME_STEP_def)
  then show ?thesis
    using u1 u2 u3 u4 u5 e1(1) my2 e2(2) e3(3) ey4 by blast
qed

lemma first_update_positions:
  "\<exists>h1 h2 h3 h4 h5.
      update_position (initial_heap h0) sun planet_list = Inr h1
    \<and> update_position h1 mercury (sun # planet_list) = Inr h2
    \<and> update_position h2 venus (sun # planet_list) = Inr h3
    \<and> update_position h3 earth (sun # planet_list) = Inr h4
    \<and> update_position h4 mars (sun # planet_list) = Inr h5
    \<and> update_positions (initial_heap h0) the_solar_system = Inr h5
    \<and> pos_y (h2 mercury) \<noteq> pos_y (initial_heap h0 mercury)
    \<and> pos_y (h3 venus) \<noteq> pos_y (initial_heap h0 venus)"
proof -
  obtain h1 h2 h3 h4 h5 where
    u: "update_position (initial_heap h0) sun planet_list = Inr h1"
       "update_position h1 mercury (sun # planet_list) = Inr h2"
       "update_position h2 venus (sun # planet_list) = Inr h3"
       "update_position h3 earth (sun # planet_list) = Inr h4"
       "update_position h4 mars (sun # planet_list) = Inr h5"
    and my: "pos_y (h2 mercury) = 47400 * TIME_STEP"
    and vy: "pos_y (h3 venus) < 0"
    using first_tick_updates [of h0] by blast
  have "update_planets h1 (sun # planet_list) [mercury, venus, earth, mars] = Inr h5"
    using u(2-5) by simp
  then have "update_positions (initial_heap h0) the_solar_system = Inr h5"
    using u(1) by (simp add: update_positions_def the_solar_system_def planet_list_def)
  moreover have "pos_y (h2 mercury) \<noteq> pos_y (initial_heap h0 mercury)"
    by (simp add: my initial_heap_mercury TIME_STEP_def)
  moreover have "pos_y (h3 venus) \<noteq> pos_y (initial_heap h0 venus)"
    using vy by (simp add: initial_heap_venus)
  ultimately show ?thesis
    using u by blast
qed

theorem update_positions_in_sequence_witness:
  "\<exists>h1 h2 h3 h4 h5.
      update_position (initial_heap line_store) sun [mercury, venus, earth, mars] = Inr h1
    \<and> update_position h1 mercury [sun, mercury, venus, earth, mars] = Inr h2
    \<and> update_position h2 venus [sun, mercury, venus, earth, mars] = Inr h3
    \<and> update_position h3 earth [sun, mercury, venus, earth, mars] = Inr h4
    \<and> update_position h4 mars [sun, mercury, venus, earth, mars] = Inr h5
    \<and> update_positions (initial_heap line_store) the_solar_system = Inr h5
    \<and> pos_y (h2 mercury) \<noteq> pos_y (initial_heap line_store mercury)"
proof -
  obtain h1 h2 h3 h4 h5 where
    u: "update_position (initial_heap line_store) sun planet_list = Inr h1"
       "update_position h1 mercury (sun # planet_list) = Inr h2"
       "update_position h2 venus (sun # planet_list) = Inr h3"
       "update_position h3 earth (sun # planet_list) = Inr h4"
       "update_position h4 mars (sun # planet_list) = Inr h5"
    and moved: "pos_y (h2 mercury) \<noteq> pos_y (initial_heap line_store mercury)"
    using first_update_positions [of line_store] by blast
  let ?hs = "[h1, h2, h3, h4, h5]"
  have len: "length ?hs = Suc (length (planets the_solar_system))"
    by (simp add: the_solar_system_def planet_list_def)
  have steps: "\<forall>i<length (planets the_solar_system).
           update_position (?hs ! i) (planets the_solar_system ! i)
             (star the_solar_system # planets the_solar_system) = Inr (?hs ! Suc i)"
  proof (intro allI impI)
    fix i assume "i < length (planets the_solar_system)"
    then have "i = 0 \<or> i = 1 \<or> i = 2 \<or> i = 3"
      by (auto simp: the_solar_system_def planet_list_def)
    then show "update_position (?hs ! i) (planets the_solar_system ! i)
             (star the_solar_system # planets the_solar_system) = Inr (?hs ! Suc i)"
      using u(2-5) by (auto simp: the_solar_system_def planet_list_def)
  qed
  have "update_positions (initial_heap line_store) the_solar_system = Inr h5"
    unfolding update_positions_in_sequence [of "initial_heap line_store" the_solar_system h5]
    using u(1) len steps
    by (intro exI [of _ ?hs]) (simp add: the_solar_system_def planet_list_def)
  then show ?thesis
    using u moved unfolding planet_list_def by blast
qed

section \<open>The driver loop\<close>

lemma planet_list_candidates:
  "filter (\<lambda>q. q \<noteq> earth) planet_list = [mercury, venus, mars]"
  by (simp add: planet_list_def body_neq)

lemma nearest_to_earth:
  "\<exists>c. mostest_closest_neighbour h earth planet_list = Some c \<and> c \<in> {mercury, venus, mars}"
proof -
  obtain c where c: "mostest_closest_neighbour h earth planet_list = Some c"
    and fn: "first_nearest h earth [mercury, venus, mars] c"
    using mostest_closest_neighbour_cases [of earth planet_list h]
    by (auto simp: planet_list_candidates)
  have "c \<in> set [mercury, venus, mars]"
    by (rule first_nearest_mem [OF fn])
  with c show ?thesis
    by simp
qed

lemma sum_list_update:
  assumes "distinct (map fst al)" and "map_of al k = Some v"
  shows "sum_list (map snd (AList.update k w al)) = sum_list (map snd al) - v + (w :: int)"
  using assms
proof (induction al)
  case Nil
  then show ?case by simp
next
  case (Cons a al)
  show ?case
  proof (cases "fst a = k")
    case True
    then have "snd a = v"
      using Cons.prems(2) by (cases a) simp
    then show ?thesis
      using True by (cases a) simp
  next
    case False
    then have "map_of al k = Some v"
      using Cons.prems(2) by (cases a) simp
    moreover have "distinct (map fst al)"
      using Cons.prems(1) by simp
    ultimately show ?thesis
      using Cons.IH False by (cases a) simp
  qed
qed

lemma tick_result:
  assumes "tick st = Inr st'"
  shows "\<exists>c n. update_positions (store st) the_solar_system = Inr (store st')
           \<and> mostest_closest_neighbour (store st') earth planet_list = Some c
           \<and> map_of (closest_count st) c = Some n
           \<and> closest_count st' = AList.update c (n + 1) (closest_count st)
           \<and> count st' = count st + 1"
  using assms
  by (auto simp: tick_def Let_def split: sum.splits option.splits)

lemma tick_invariant:
  assumes "tick st = Inr st'" and "tally_invariant st"
  shows "tally_invariant st'"
proof -
  obtain c n where c: "map_of (closest_count st) c = Some n"
    and cc: "closest_count st' = AList.update c (n + 1) (closest_count st)"
    and cnt: "count st' = count st + 1"
    using tick_result [OF assms(1)] by blast
  have keys: "map fst (closest_count st) = [mercury, venus, mars]"
    and total: "sum_list (map snd (closest_count st)) = count st"
    using assms(2) by (simp_all add: tally_invariant_def)
  have dist: "distinct (map fst (closest_count st))"
    by (simp add: keys body_neq)
  have "c \<in> set (map fst (closest_count st))"
    using c by (metis map_of_eq_None_iff option.distinct(1) set_map)
  then have "map fst (closest_count st') = [mercury, venus, mars]"
    by (simp add: cc update_keys keys del: set_map)
  moreover have "sum_list (map snd (closest_count st')) = count st'"
    using sum_list_update [OF dist c, of "n + 1"] total by (simp add: cc cnt)
  ultimately show ?thesis
    by (simp add: tally_invariant_def)
qed

lemma initial_state_invariant: "tally_invariant (initial_state h0)"
  by (simp add: tally_invariant_def initial_state_def initial_closest_count_eq)

lemma run_loop_invariant:
  assumes "run_loop frames st = Inr st'" and "tally_invariant st"
  shows "tally_invariant st' \<and> count st' = count st + int (iterations frames)"
  using assms
proof (induction frames arbitrary: st)
  case Nil
  then show ?case by simp
next
  case (Cons quit frames)
  from Cons.prems(1) obtain st1 where st1: "tick st = Inr st1"
    and rest: "if quit then st' = st1 else run_loop frames st1 = Inr st'"
    by (auto split: sum.splits if_splits)
  have inv1: "tally_invariant st1"
    by (rule tick_invariant [OF st1 Cons.prems(2)])
  have cnt1: "count st1 = count st + 1"
    using tick_result [OF st1] by blast
  show ?case
  proof (cases quit)
    case True
    then show ?thesis
      using rest inv1 cnt1 by simp
  next
    case False
    then have "run_loop frames st1 = Inr st'"
      using rest by simp
    from Cons.IH [OF this inv1] show ?thesis
      using False cnt1 by simp
  qed
qed

lemma tick_error:
  assumes "tick st = Inl e" and "map fst (closest_count st) = [mercury, venus, mars]"
  shows "e = ZeroDivisionError"
proof (cases "update_positions (store st) the_solar_system")
  case (Inl e')
  then show ?thesis
    using assms(1) update_positions_error [OF Inl] by (simp add: tick_def)
next
  case (Inr h')
  obtain c where c: "mostest_closest_neighbour h' earth planet_list = Some c"
    and mem: "c \<in> {mercury, venus, mars}"
    using nearest_to_earth by blast
  have "c \<in> set (map fst (closest_count st))"
    using mem by (simp only: assms(2)) simp
  then have "map_of (closest_count st) c \<noteq> None"
    by (simp add: map_of_eq_None_iff)
  then show ?thesis
    using assms(1) Inr c by (auto simp: tick_def Let_def)
qed

lemma first_tick_succeeds: "\<exists>st. tick (initial_state h0) = Inr st"
proof -
  obtain h5 where h5: "update_positions (initial_heap h0) the_solar_system = Inr h5"
    using first_update_positions [of h0] by blast
  obtain c where c: "mostest_closest_neighbour h5 earth planet_list = Some c"
    and mem: "c \<in> {mercury, venus, mars}"
    using nearest_to_earth by blast
  have "map_of initial_closest_count c = Some 0"
    using mem by (auto simp: initial_closest_count_eq body_neq)
  then show ?thesis
    using h5 c by (simp add: tick_def initial_state_def Let_def)
qed

text \<open>
  Claim C7. A tick that succeeds adds one to the tick counter and one to the count of
  exactly one planet, the nearest neighbour of the Earth in the updated store; the other
  counts stay. On every input, the state that the loop reaches from the initial state has
  counts that add up to the tick counter, which is the number of iterations run.
\<close>

theorem tally_sum_equals_tick_count:
  "(\<forall>st'. tick st = Inr st' \<longrightarrow>
       count st' = count st + 1
       \<and> (\<exists>c n. mostest_closest_neighbour (store st') earth planet_list = Some c
              \<and> map_of (closest_count st) c = Some n
              \<and> map_of (closest_count st') = (map_of (closest_count st))(c \<mapsto> n + 1)))
   \<and> (\<forall>frames st'. run_loop frames (initial_state h0) = Inr st' \<longrightarrow>
         sum_list (map snd (closest_count st')) = count st'
         \<and> count st' = int (iterations frames))"
proof -
  have step: "count st' = count st + 1
       \<and> (\<exists>c n. mostest_closest_neighbour (store st') earth planet_list = Some c
              \<and> map_of (closest_count st) c = Some n
              \<and> map_of (closest_count st') = (map_of (closest_count st))(c \<mapsto> n + 1))"
    if "tick st = Inr st'" for st'
    using tick_result [OF that] by (auto simp: update_conv')
  have loop: "sum_list (map snd (closest_count st')) = count st'
         \<and> count st' = int (iterations frames)"
    if "run_loop frames (initial_state h0) = Inr st'" for frames st'
    using run_loop_invariant [OF that initial_state_invariant]
    by (simp add: tally_invariant_def initial_state_def)
  show ?thesis
    using step loop by blast
qed

theorem tally_sum_equals_tick_count_witness:
  "\<exists>st. run_loop [True] (initial_state line_store) = Inr st
      \<and> count st = 1
      \<and> sum_list (map snd (closest_count st)) = 1
      \<and> (\<exists>c. mostest_closest_neighbour (store st) earth planet_list = Some c
             \<and> map_of (closest_count st) c = Some 1)"
proof -
  obtain st where st: "tick (initial_state line_store) = Inr st"
    using first_tick_succeeds by blast
  then have run: "run_loop [True] (initial_state line_store) = Inr st"
    by simp
  note inst = tally_sum_equals_tick_count [of "initial_state line_store" line_store]
  have "count st = 1" "sum_list (map snd (closest_count st)) = 1"
    using inst run by (auto simp del: run_loop.simps)
  moreover obtain c n where c: "mostest_closest_neighbour (store st) earth planet_list = Some c"
    and n: "map_of (closest_count (initial_state line_store)) c = Some n"
    and upd: "map_of (closest_count st) = (map_of (closest_count (initial_state line_store)))(c \<mapsto> n + 1)"
    using inst st by blast
  have "n = 0"
    using n by (auto simp: initial_state_def initial_closest_count_eq split: if_splits)
  then have "map_of (closest_count st) c = Some 1"
    by (simp add: upd)
  ultimately show ?thesis
    using run c by blast
qed

text \<open>
  Claim C10. With the planets of the default scenario, the nearest neighbour of the Earth
  is found in every store and is Mercury, Venus or Mars, never the Earth. These three are
  the keys of the dictionary at the start and in every state that the loop reaches, so
  the increment finds its key: a tick raises nothing but \<^verbatim>\<open>ZeroDivisionError\<close>, which
  comes from the update of the positions.
\<close>

theorem nearest_to_earth_is_counted:
  "(\<exists>c. mostest_closest_neighbour h earth planet_list = Some c
        \<and> c \<in> {mercury, venus, mars} \<and> c \<noteq> earth)
   \<and> map fst initial_closest_count = [mercury, venus, mars]
   \<and> (\<forall>frames st. run_loop frames (initial_state h0) = Inr st \<longrightarrow>
         map fst (closest_count st) = [mercury, venus, mars]
         \<and> (\<forall>e. tick st = Inl e \<longrightarrow> e = ZeroDivisionError))"
proof -
  have reach: "map fst (closest_count st) = [mercury, venus, mars]
         \<and> (\<forall>e. tick st = Inl e \<longrightarrow> e = ZeroDivisionError)"
    if "run_loop frames (initial_state h0) = Inr st" for frames st
  proof -
    have keys: "map fst (closest_count st) = [mercury, venus, mars]"
      using run_loop_invariant [OF that initial_state_invariant]
      by (simp add: tally_invariant_def)
    have "e = ZeroDivisionError" if "tick st = Inl e" for e
      by (rule tick_error [OF that keys])
    with keys show ?thesis
      by simp
  qed
  have "\<exists>c. mostest_closest_neighbour h earth planet_list = Some c
        \<and> c \<in> {mercury, venus, mars} \<and> c \<noteq> earth"
    using nearest_to_earth [of h] body_neq by auto
  then show ?thesis
    using reach by (simp add: initial_closest_count_eq)
qed

theorem nearest_to_earth_is_counted_witness:
  "mostest_closest_neighbour (initial_heap line_store) earth planet_list = Some mercury
   \<and> (\<exists>st. run_loop [True] (initial_state line_store) = Inr st
          \<and> map fst (closest_count st) = [mercury, venus, mars])"
proof -
  note inst = nearest_to_earth_is_counted [of "initial_heap line_store" line_store]
  obtain st where st: "tick (initial_state line_store) = Inr st"
    using first_tick_succeeds by blast
  then have run: "run_loop [True] (initial_state line_store) = Inr st"
    by simp
  have keys: "map fst (closest_count st) = [mercury, venus, mars]"
    using inst [THEN conjunct2, THEN conjunct2, rule_format, OF run] by simp
  have near: "mostest_closest_neighbour (initial_heap line_store) earth planet_list = Some mercury"
    by (simp add: mostest_closest_neighbour_def planet_list_def body_neq Let_def
        get_position_def initial_heap_bodies math_dist_same_y AU_def)
  show ?thesis
    by (intro conjI exI [of _ st]) (fact near run keys)+
qed

end
